theory Spec2Isabelle
  imports Complex_Main
begin

section \<open>Strings\<close>

text \<open>
  The JavaScript string operations the source relies on, for ASCII text.
  \<open>split_on\<close> is \<^verbatim>\<open>String.prototype.split\<close> with a one-character separator:
  the empty string splits into one empty piece, and a trailing separator leaves an empty
  last piece.
\<close>

fun split_on :: "char \<Rightarrow> string \<Rightarrow> string list" where
  "split_on sep [] = [[]]"
| "split_on sep (c # cs) =
     (if c = sep then [] # split_on sep cs
      else (case split_on sep cs of
              [] \<Rightarrow> [[c]]
            | w # ws \<Rightarrow> (c # w) # ws))"

definition toUpperChar :: "char \<Rightarrow> char" where
  "toUpperChar c =
     (let n = (of_char c :: nat)
      in if 97 \<le> n \<and> n \<le> 122 then char_of (n - 32) else c)"

definition toUpperCase :: "string \<Rightarrow> string" where
  "toUpperCase s = map toUpperChar s"

definition is_space :: "char \<Rightarrow> bool" where
  "is_space c \<longleftrightarrow> (of_char c :: nat) \<in> {9, 10, 11, 12, 13, 32}"

definition trim :: "string \<Rightarrow> string" where
  "trim s = rev (dropWhile is_space (rev (dropWhile is_space s)))"

section \<open>Palettes and the colour matcher\<close>

text \<open>
  A swatch of \<^verbatim>\<open>palettes.json\<close>: a block name and two representative colours.
  \<^verbatim>\<open>settings.color\<close> selects one of the two; the \<^verbatim>\<open>color\<close> and
  \<^verbatim>\<open>settings\<close> commands only ever store \<^verbatim>\<open>'average'\<close> or \<^verbatim>\<open>'dominant'\<close>
  there, so the key is a two-valued type.
\<close>

type_synonym rgb = "int \<times> int \<times> int"

record swatch =
  block :: string
  average :: rgb
  dominant :: rgb

datatype color_key = Average | Dominant

fun swatch_color :: "color_key \<Rightarrow> swatch \<Rightarrow> rgb" where
  "swatch_color Average s = average s"
| "swatch_color Dominant s = dominant s"

record settings =
  mode :: string
  color :: color_key
  chunkSize :: nat
  commands :: bool

text \<open>
  A pixel channel as \<^verbatim>\<open>image.get\<close> returns it: a number, or \<open>None\<close> for
  JavaScript's \<^verbatim>\<open>undefined\<close>. A colour sample is \<^verbatim>\<open>[r, g, b, alpha]\<close>.
\<close>

type_synonym channel = "int option"
type_synonym sample = "channel \<times> channel \<times> channel \<times> channel"

text \<open>
  The two metrics live in \<^verbatim>\<open>colour-distances.js\<close> and \<^verbatim>\<open>antimatter-color.js\<close>,
  which are not part of the sources at hand; the matcher takes them as parameters.
  \<open>rgb_distance lib c s\<close> stands for \<^verbatim>\<open>colorDistanceRGB(c, s)\<close> and
  \<open>lab_distance lib c s\<close> for \<^verbatim>\<open>colorDistanceLAB(c, s)\<close>. Distances are real
  numbers: a not-a-number distance is outside the model.
\<close>

record color_lib =
  rgb_distance :: "channel \<times> channel \<times> channel \<Rightarrow> rgb \<Rightarrow> real"
  lab_distance :: "channel \<times> channel \<times> channel \<Rightarrow> rgb \<Rightarrow> real"

text \<open>
  What the program can throw: the two errors of \<^verbatim>\<open>resolvePaletteArgument\<close>, the
  error of \<^verbatim>\<open>ensureBotSpawned\<close>, a type error of the language, and the failure of
  an awaited call on the game.
\<close>

datatype error =
  PaletteRequired
| UnknownPalettes "string list"
| NotConnected
| TypeError
| ActuatorFailure

text \<open>
  The palettes object is the result of \<^verbatim>\<open>JSON.parse\<close> on \<^verbatim>\<open>palettes.json\<close>: a plain
  object whose own properties map a palette name to its array of swatches. It is given
  here by its own properties. The read \<^verbatim>\<open>palettes[name]\<close> finds an own property
  first and then a property inherited from \<^verbatim>\<open>Object.prototype\<close>, which is a function
  (or, for \<^verbatim>\<open>__proto__\<close>, the prototype object): a value that is truthy and cannot be
  spread. Any other name reads \<^verbatim>\<open>undefined\<close>.
\<close>

datatype 'a property = Undefined | Own 'a | Inherited

definition object_prototype_names :: "string list" where
  "object_prototype_names =
     [''constructor'', ''hasOwnProperty'', ''isPrototypeOf'', ''propertyIsEnumerable'',
      ''toLocaleString'', ''toString'', ''valueOf'', ''__proto__'',
      ''__defineGetter__'', ''__defineSetter__'', ''__lookupGetter__'', ''__lookupSetter__'']"

definition property_of :: "(string \<rightharpoonup> 'a) \<Rightarrow> string \<Rightarrow> 'a property" where
  "property_of obj name =
     (case obj name of
        Some v \<Rightarrow> Own v
      | None \<Rightarrow> if name \<in> set object_prototype_names then Inherited else Undefined)"

text \<open>
  \<^verbatim>\<open>parsePaletteString\<close>. The loop over the names of the key, from the array
  \<open>palette\<close> built so far: a name that reads \<^verbatim>\<open>undefined\<close> is skipped by the guard
  \<^verbatim>\<open>if (palettes[paletteName])\<close>, the swatches of a palette are pushed, and an
  inherited property passes the guard and makes \<^verbatim>\<open>palette.push(...palettes[paletteName])\<close>
  throw a type error.
\<close>

fun parsePaletteString_loop ::
  "(string \<rightharpoonup> swatch list) \<Rightarrow> swatch list \<Rightarrow> string list \<Rightarrow> error + swatch list" where
  "parsePaletteString_loop palettes palette [] = Inr palette"
| "parsePaletteString_loop palettes palette (paletteName # names) =
     (case property_of palettes paletteName of
        Undefined \<Rightarrow> parsePaletteString_loop palettes palette names
      | Own p \<Rightarrow> parsePaletteString_loop palettes (palette @ p) names
      | Inherited \<Rightarrow> Inl TypeError)"

definition parsePaletteString :: "(string \<rightharpoonup> swatch list) \<Rightarrow> string \<Rightarrow> error + swatch list" where
  "parsePaletteString palettes paletteString =
     parsePaletteString_loop palettes [] (split_on CHR ''+'' paletteString)"

text \<open>
  The same function over an explicit store of arrays, to follow which array each
  \<^verbatim>\<open>push\<close> writes to. A reference is an index into the store; the palettes object
  maps a name to the reference of its array. \<^verbatim>\<open>const palette = []\<close> allocates a new
  array at the end of the store and every \<^verbatim>\<open>palette.push(...palettes[paletteName])\<close>
  appends the elements of the source array to it. When the function throws, the new
  array stays in the store with what was pushed so far.
\<close>

type_synonym ref = nat
type_synonym store = "swatch list list"

definition push_all :: "ref \<Rightarrow> ref \<Rightarrow> store \<Rightarrow> store" where
  "push_all dst src s = s[dst := s ! dst @ s ! src]"

fun parsePaletteString_store_loop ::
  "(string \<rightharpoonup> ref) \<Rightarrow> ref \<Rightarrow> string list \<Rightarrow> store \<Rightarrow> error option \<times> store" where
  "parsePaletteString_store_loop palettes palette [] s = (None, s)"
| "parsePaletteString_store_loop palettes palette (paletteName # names) s =
     (case property_of palettes paletteName of
        Undefined \<Rightarrow> parsePaletteString_store_loop palettes palette names s
      | Own src \<Rightarrow> parsePaletteString_store_loop palettes palette names (push_all palette src s)
      | Inherited \<Rightarrow> (Some TypeError, s))"

definition parsePaletteString_store ::
  "(string \<rightharpoonup> ref) \<Rightarrow> string \<Rightarrow> store \<Rightarrow> (error + ref) \<times> store" where
  "parsePaletteString_store palettes paletteString s =
     (let palette = length s
      in case parsePaletteString_store_loop palettes palette
                (split_on CHR ''+'' paletteString) (s @ [[]]) of
           (None, s') \<Rightarrow> (Inr palette, s')
         | (Some e, s') \<Rightarrow> (Inl e, s'))"

text \<open>The palettes object as the pure matcher sees it: each name with the contents of its array.\<close>

definition contents :: "store \<Rightarrow> (string \<rightharpoonup> ref) \<Rightarrow> (string \<rightharpoonup> swatch list)" where
  "contents s palettes = (\<lambda>name. map_option (\<lambda>r. s ! r) (palettes name))"

text \<open>
  \<^verbatim>\<open>resolvePaletteArgument\<close>, the check the \<^verbatim>\<open>draw\<close> and \<^verbatim>\<open>gif\<close> commands run
  on their palette argument before a build starts. \<open>None\<close> is an absent argument. A
  part is missing when \<^verbatim>\<open>!palettes[part]\<close> holds, that is, when the read is
  \<^verbatim>\<open>undefined\<close>: an array and an inherited property are both truthy.
\<close>

definition resolvePaletteArgument ::
  "(string \<rightharpoonup> swatch list) \<Rightarrow> string option \<Rightarrow> error + string" where
  "resolvePaletteArgument palettes paletteArg =
     (case paletteArg of
        None \<Rightarrow> Inl PaletteRequired
      | Some arg \<Rightarrow>
          if arg = [] then Inl PaletteRequired
          else
            let text = trim arg
            in if text = [] then Inl PaletteRequired
               else
                 let parts = split_on CHR ''+'' text;
                     missing = filter (\<lambda>part. property_of palettes part = Undefined) parts
                 in if missing \<noteq> [] then Inl (UnknownPalettes missing) else Inr text)"

text \<open>
  \<^verbatim>\<open>getBlockFromColor\<close>. The palette argument is a palette key or an array of swatches
  (\<^verbatim>\<open>typeof palette === 'string'\<close>); a key is resolved first, and the type error of
  \<^verbatim>\<open>parsePaletteString\<close> propagates. One step of the scan compares the running best
  with the next swatch and keeps the best only when its distance is smaller.
\<close>

datatype palette_arg = PaletteKey string | PaletteArray "swatch list"

definition nearer ::
  "color_lib \<Rightarrow> settings \<Rightarrow> string \<Rightarrow> channel \<times> channel \<times> channel \<Rightarrow> swatch \<Rightarrow> swatch \<Rightarrow> swatch" where
  "nearer lib st md c best sw =
     (if toUpperCase md = ''LAB'' \<or> mode st = ''LAB'' then
        (let disA = lab_distance lib c (swatch_color (color st) best);
             disB = lab_distance lib c (swatch_color (color st) sw)
         in if disA < disB then best else sw)
      else
        (let distanceA = rgb_distance lib c (swatch_color (color st) best);
             distanceB = rgb_distance lib c (swatch_color (color st) sw)
         in if distanceA < distanceB then best else sw))"

definition getBlockFromColor ::
  "color_lib \<Rightarrow> settings \<Rightarrow> (string \<rightharpoonup> swatch list) \<Rightarrow> sample \<Rightarrow> palette_arg \<Rightarrow> string
     \<Rightarrow> error + string" where
  "getBlockFromColor lib st palettes smp palette md =
     (case smp of (r, g, b, alpha) \<Rightarrow>
        (case (case palette of
                 PaletteKey k \<Rightarrow> parsePaletteString palettes k
               | PaletteArray p \<Rightarrow> Inr p) of
           Inl e \<Rightarrow> Inl e
         | Inr [] \<Rightarrow> Inr ''air''
         | Inr (first # rest) \<Rightarrow>
             if alpha = Some 0 then Inr ''air''
             else Inr (block (foldl (nearer lib st md (r, g, b)) first rest))))"

text \<open>
  The metric that the scan uses under the given settings and mode argument, and the
  distance of a swatch from a sample under it.
\<close>

definition active_distance ::
  "color_lib \<Rightarrow> settings \<Rightarrow> string \<Rightarrow> channel \<times> channel \<times> channel \<Rightarrow> swatch \<Rightarrow> real" where
  "active_distance lib st md c sw =
     (if toUpperCase md = ''LAB'' \<or> mode st = ''LAB''
      then lab_distance lib c (swatch_color (color st) sw)
      else rgb_distance lib c (swatch_color (color st) sw))"

section \<open>Images and the samplers\<close>

text \<open>
  An image is the \<^verbatim>\<open>ndarray\<close> that \<^verbatim>\<open>get-pixels\<close> returns: its \<^verbatim>\<open>shape\<close> and its
  accessor \<^verbatim>\<open>get\<close>, which reads \<^verbatim>\<open>undefined\<close> (\<open>None\<close>) where the array holds no
  value. \<open>shape_at im i\<close> is \<^verbatim>\<open>image.shape[i]\<close>. An index computed from a missing dimension
  is not a number (\<open>None\<close>) and reads \<^verbatim>\<open>undefined\<close>. Coordinates are real numbers in
  the model; rounding of floating-point products is outside it.
\<close>

record image =
  shape :: "nat list"
  get :: "int list \<Rightarrow> channel"

definition shape_at :: "image \<Rightarrow> nat \<Rightarrow> nat option" where
  "shape_at im i = (if i < length (shape im) then Some (shape im ! i) else None)"

definition image_get :: "image \<Rightarrow> int option list \<Rightarrow> channel" where
  "image_get im idx = (case those idx of None \<Rightarrow> None | Some js \<Rightarrow> get im js)"

definition scaled_floor :: "nat option \<Rightarrow> real \<Rightarrow> int option" where
  "scaled_floor n x = map_option (\<lambda>m. \<lfloor>real m * x\<rfloor>) n"

text \<open>The operator \<^verbatim>\<open>a ?? b\<close>.\<close>

definition nullish_or :: "channel \<Rightarrow> channel \<Rightarrow> channel" where
  "nullish_or a b = (case a of Some v \<Rightarrow> Some v | None \<Rightarrow> b)"

text \<open>
  \<^verbatim>\<open>getBlock\<close> of \<^verbatim>\<open>index.js\<close>, in two parts: \<open>getBlock_sample\<close> is the sample
  \<^verbatim>\<open>[r, g, b, alpha]\<close> it reads from the image, and \<open>getBlock\<close> passes the sample to
  the colour matcher with the default mode \<^verbatim>\<open>'rgb'\<close>.
\<close>

definition getBlock_sample :: "image \<Rightarrow> real \<Rightarrow> real \<Rightarrow> bool \<Rightarrow> nat \<Rightarrow> sample" where
  "getBlock_sample img x z gif t =
     (if \<not> gif then
        (let px = scaled_floor (shape_at img 0) x;
             pz = scaled_floor (shape_at img 1) z;
             r = image_get img [px, pz, Some 0];
             g = image_get img [px, pz, Some 1];
             b = image_get img [px, pz, Some 2];
             alpha = nullish_or (image_get img [px, pz, Some 3]) (image_get img [px, pz, Some 2])
         in (r, g, b, alpha))
      else
        (let px = scaled_floor (shape_at img 1) x;
             pz = scaled_floor (shape_at img 2) z;
             r = image_get img [Some (int t), px, pz, Some 0];
             g = image_get img [Some (int t), px, pz, Some 1];
             b = image_get img [Some (int t), px, pz, Some 2];
             alpha = nullish_or (image_get img [Some (int t), px, pz, Some 3]) (Some 255)
         in (r, g, b, alpha)))"

definition getBlock ::
  "color_lib \<Rightarrow> settings \<Rightarrow> (string \<rightharpoonup> swatch list) \<Rightarrow> image \<Rightarrow> real \<Rightarrow> real \<Rightarrow> palette_arg
     \<Rightarrow> bool \<Rightarrow> nat \<Rightarrow> error + string" where
  "getBlock lib st palettes img x z palette gif t =
     getBlockFromColor lib st palettes (getBlock_sample img x z gif t) palette ''rgb''"

text \<open>
  \<^verbatim>\<open>getTextureColor\<close> and \<^verbatim>\<open>getBlockFromUV\<close> of \<^verbatim>\<open>model-builder.js\<close>. The
  pixel index is clamped to the image and the second coordinate is flipped.
  \<^verbatim>\<open>getBlockFromUV\<close> calls the matcher with its default key \<^verbatim>\<open>'zero-gravity'\<close>,
  a single name that \<^verbatim>\<open>Object.prototype\<close> does not have, so the call always returns
  (lemma \<open>default_key_returns\<close> below) and \<open>getBlockFromUV\<close> is the block it returns.
\<close>

type_synonym uv = "real \<times> real"

definition clamped_index :: "nat option \<Rightarrow> real \<Rightarrow> int option" where
  "clamped_index n x = map_option (\<lambda>m. min (int m - 1) (max 0 \<lfloor>x * real m\<rfloor>)) n"

definition getTextureColor :: "image \<Rightarrow> uv \<Rightarrow> sample" where
  "getTextureColor texture uv =
     (let x = clamped_index (shape_at texture 0) (fst uv);
          y = clamped_index (shape_at texture 1) (1 - snd uv);
          r = image_get texture [x, y, Some 0];
          g = image_get texture [x, y, Some 1];
          b = image_get texture [x, y, Some 2];
          alpha = (case shape_at texture 2 of
                     Some c \<Rightarrow> if c > 3 then image_get texture [x, y, Some 3] else Some 255
                   | None \<Rightarrow> Some 255)
      in (r, g, b, alpha))"

definition getBlockFromUV ::
  "color_lib \<Rightarrow> settings \<Rightarrow> (string \<rightharpoonup> swatch list) \<Rightarrow> image \<Rightarrow> uv \<Rightarrow> string" where
  "getBlockFromUV lib st palettes texture uv =
     projr (getBlockFromColor lib st palettes (getTextureColor texture uv)
              (PaletteKey ''zero-gravity'') ''rgb'')"

section \<open>The mesh rasterizer\<close>

text \<open>
  Positions are triples of real numbers, floored to integer block positions when a block
  is set. \<open>offset\<close> and \<open>floor3\<close> are \<^verbatim>\<open>offset\<close> and \<^verbatim>\<open>floor\<close> of the
  \<^verbatim>\<open>vec3\<close> package; \<^verbatim>\<open>Math.hypot\<close> is the Euclidean norm.
\<close>

type_synonym vec3 = "real \<times> real \<times> real"
type_synonym ivec3 = "int \<times> int \<times> int"

definition offset :: "vec3 \<Rightarrow> real \<Rightarrow> real \<Rightarrow> real \<Rightarrow> vec3" where
  "offset p dx dy dz = (case p of (x, y, z) \<Rightarrow> (x + dx, y + dy, z + dz))"

definition floor3 :: "vec3 \<Rightarrow> ivec3" where
  "floor3 p = (case p of (x, y, z) \<Rightarrow> (\<lfloor>x\<rfloor>, \<lfloor>y\<rfloor>, \<lfloor>z\<rfloor>))"

definition distanceBetweenPoints :: "vec3 \<Rightarrow> vec3 \<Rightarrow> real" where
  "distanceBetweenPoints a b =
     (case (a, b) of ((ax, ay, az), (bx, by, bz)) \<Rightarrow>
        sqrt ((ax - bx)\<^sup>2 + (ay - by)\<^sup>2 + (az - bz)\<^sup>2))"

definition lerp :: "real \<Rightarrow> real \<Rightarrow> real \<Rightarrow> real" where
  "lerp a b t = (1 - t) * a + t * b"

definition lerp2D :: "uv \<Rightarrow> uv \<Rightarrow> real \<Rightarrow> uv" where
  "lerp2D p q t = (case (p, q) of ((x1, y1), (x2, y2)) \<Rightarrow> (lerp x1 x2 t, lerp y1 y2 t))"

definition lerp3D :: "vec3 \<Rightarrow> vec3 \<Rightarrow> real \<Rightarrow> vec3" where
  "lerp3D a b t =
     (case (a, b) of ((ax, ay, az), (bx, by, bz)) \<Rightarrow> (lerp ax bx t, lerp ay by t, lerp az bz t))"

text \<open>
  What the program asks of the game, in order. \<open>Setblock\<close> is the chat command
  \<^verbatim>\<open>/setblock x y z block\<close>; \<open>PlaceBlock\<close> and \<open>ClearBlock\<close> are the calls of
  \<^verbatim>\<open>actions.placeBlock\<close> and \<^verbatim>\<open>actions.clearBlock\<close>; \<open>WaitForTicks\<close> is
  \<^verbatim>\<open>bot.waitForTicks\<close>; \<open>Announce\<close> is one of the two chat messages of
  \<^verbatim>\<open>buildModel\<close>; \<open>Logged\<close> is a line the \<^verbatim>\<open>stop\<close> command adds to the log.
\<close>

datatype log_line = NoActiveBuild | AlreadyRequested | CancellationRequested

datatype action =
  Setblock ivec3 string
| PlaceBlock ivec3 string
| ClearBlock ivec3
| WaitForTicks nat
| Announce string
| Logged log_line

text \<open>
  The parts of the connected bot that the builders read: the colour library behind
  \<^verbatim>\<open>bot.colors.getBlock\<close>, \<^verbatim>\<open>bot.settings\<close> and the palettes. The rasterizer is
  followed under the settings of the bot as they are; commands that change them while
  it is suspended are modelled for the build scheduler only.
\<close>

record bot_env =
  colors :: color_lib
  bot_settings :: settings
  bot_palettes :: "string \<rightharpoonup> swatch list"

text \<open>
  The state of \<^verbatim>\<open>model-builder.js\<close>: the module counter \<^verbatim>\<open>blocksPlaced\<close> and what
  has been sent to the game so far.
\<close>

record builder =
  blocksPlaced :: nat
  sent :: "action list"

text \<open>
  \<^verbatim>\<open>setBlock\<close> returns at once for \<^verbatim>\<open>'air'\<close> and \<^verbatim>\<open>'cave_air'\<close>. With a chunk
  size of 0 the remainder is not a number and no tick is waited for.
\<close>

definition setBlock :: "bot_env \<Rightarrow> ivec3 \<Rightarrow> string \<Rightarrow> builder \<Rightarrow> builder" where
  "setBlock bt position blockType bs =
     (if blockType = ''air'' \<or> blockType = ''cave_air'' then bs
      else
        (let bs1 = bs\<lparr>sent := sent bs @ [Setblock position blockType]\<rparr>;
             bs2 = (if chunkSize (bot_settings bt) \<noteq> 0
                       \<and> blocksPlaced bs1 mod chunkSize (bot_settings bt) = 0
                    then bs1\<lparr>sent := sent bs1 @ [WaitForTicks 1]\<rparr>
                    else bs1)
         in bs2\<lparr>blocksPlaced := blocksPlaced bs2 + 1\<rparr>))"

text \<open>
  \<^verbatim>\<open>buildLine\<close>: the loop \<^verbatim>\<open>for (let i = 0; i < distance; i++)\<close> from the value
  \<open>i\<close> of its counter on.
\<close>

function buildLine_loop ::
  "bot_env \<Rightarrow> vec3 \<Rightarrow> vec3 \<Rightarrow> image \<Rightarrow> uv \<Rightarrow> uv \<Rightarrow> real \<Rightarrow> nat \<Rightarrow> builder \<Rightarrow> builder" where
  "buildLine_loop bt pointA pointB texture uvA uvB distance i bs =
     (if real i < distance then
        (let point = lerp3D pointA pointB (real i / distance);
             pointUV = lerp2D uvA uvB (real i / distance);
             block = getBlockFromUV (colors bt) (bot_settings bt) (bot_palettes bt) texture pointUV
         in buildLine_loop bt pointA pointB texture uvA uvB distance (i + 1)
              (setBlock bt (floor3 point) block bs))
      else bs)"
  by pat_completeness auto
termination
proof (relation "measure (\<lambda>(bt, pointA, pointB, texture, uvA, uvB, distance, i, bs).
                   nat \<lceil>distance\<rceil> - i)")
  show "wf (measure (\<lambda>(bt, pointA, pointB, texture, uvA, uvB, distance, i, bs).
                   nat \<lceil>distance\<rceil> - i))"
    by simp
next
  fix bt :: bot_env and pointA pointB :: vec3 and texture :: image and uvA uvB :: uv
    and distance :: real and i :: nat and bs :: builder
    and point :: vec3 and pointUV :: uv and block :: string
  assume "real i < distance"
  then have "int i < \<lceil>distance\<rceil>" by linarith
  then have "i < nat \<lceil>distance\<rceil>" by linarith
  then show "((bt, pointA, pointB, texture, uvA, uvB, distance, i + 1,
               setBlock bt (floor3 point) block bs),
              (bt, pointA, pointB, texture, uvA, uvB, distance, i, bs))
             \<in> measure (\<lambda>(bt, pointA, pointB, texture, uvA, uvB, distance, i, bs).
                   nat \<lceil>distance\<rceil> - i)"
    by simp
qed

declare buildLine_loop.simps [simp del]

definition buildLine ::
  "bot_env \<Rightarrow> vec3 \<Rightarrow> vec3 \<Rightarrow> image \<Rightarrow> uv \<times> uv \<Rightarrow> builder \<Rightarrow> builder" where
  "buildLine bt pointA pointB texture uvs bs =
     (case uvs of (uvA, uvB) \<Rightarrow>
        (let distance = max 1 (distanceBetweenPoints pointA pointB)
         in buildLine_loop bt pointA pointB texture uvA uvB distance 0 bs))"

function buildTriangle_loop ::
  "bot_env \<Rightarrow> vec3 \<Rightarrow> vec3 \<Rightarrow> vec3 \<Rightarrow> image \<Rightarrow> uv \<Rightarrow> uv \<Rightarrow> uv \<Rightarrow> real \<Rightarrow> nat \<Rightarrow> builder
     \<Rightarrow> builder" where
  "buildTriangle_loop bt pointA pointB pointC texture uvA uvB uvC distance i bs =
     (if real i < distance then
        (let pointAB = lerp3D pointA pointB (real i / distance);
             uvAB = lerp2D uvA uvB (real i / distance)
         in buildTriangle_loop bt pointA pointB pointC texture uvA uvB uvC distance (i + 1)
              (buildLine bt pointAB pointC texture (uvAB, uvC) bs))
      else bs)"
  by pat_completeness auto
termination
proof (relation "measure (\<lambda>(bt, pointA, pointB, pointC, texture, uvA, uvB, uvC, distance, i, bs).
                   nat \<lceil>distance\<rceil> - i)")
  show "wf (measure (\<lambda>(bt, pointA, pointB, pointC, texture, uvA, uvB, uvC, distance, i, bs).
                   nat \<lceil>distance\<rceil> - i))"
    by simp
next
  fix bt :: bot_env and pointA pointB pointC :: vec3 and texture :: image and uvA uvB uvC :: uv
    and distance :: real and i :: nat and bs :: builder
    and pointAB :: vec3 and uvAB :: uv
  assume "real i < distance"
  then have "int i < \<lceil>distance\<rceil>" by linarith
  then have "i < nat \<lceil>distance\<rceil>" by linarith
  then show "((bt, pointA, pointB, pointC, texture, uvA, uvB, uvC, distance, i + 1,
               buildLine bt pointAB pointC texture (uvAB, uvC) bs),
              (bt, pointA, pointB, pointC, texture, uvA, uvB, uvC, distance, i, bs))
             \<in> measure (\<lambda>(bt, pointA, pointB, pointC, texture, uvA, uvB, uvC, distance, i, bs).
                   nat \<lceil>distance\<rceil> - i)"
    by simp
qed

declare buildTriangle_loop.simps [simp del]

definition buildTriangle ::
  "bot_env \<Rightarrow> vec3 \<Rightarrow> vec3 \<Rightarrow> vec3 \<Rightarrow> image \<Rightarrow> uv \<times> uv \<times> uv \<Rightarrow> builder \<Rightarrow> builder" where
  "buildTriangle bt pointA pointB pointC texture uvs bs =
     (case uvs of (uvA, uvB, uvC) \<Rightarrow>
        (let distance = max 1 (distanceBetweenPoints pointA pointB)
         in buildTriangle_loop bt pointA pointB pointC texture uvA uvB uvC distance 0 bs))"

text \<open>\<^verbatim>\<open>buildQuad\<close>, with the four entries \<^verbatim>\<open>uv[0]\<close> to \<^verbatim>\<open>uv[3]\<close> of its last argument.\<close>

definition buildQuad ::
  "bot_env \<Rightarrow> vec3 \<Rightarrow> vec3 \<Rightarrow> vec3 \<Rightarrow> vec3 \<Rightarrow> image \<Rightarrow> uv \<times> uv \<times> uv \<times> uv \<Rightarrow> builder
     \<Rightarrow> builder" where
  "buildQuad bt pointA pointB pointC pointD texture uvs bs =
     (case uvs of (uv0, uv1, uv2, uv3) \<Rightarrow>
        buildTriangle bt pointC pointD pointA texture (uv2, uv3, uv0)
          (buildTriangle bt pointA pointB pointC texture (uv0, uv1, uv2) bs))"

text \<open>
  The face of a mesh as \<^verbatim>\<open>buildModel\<close> handles it inside its loop: \<open>corners\<close> are
  the positions \<^verbatim>\<open>face[k]\<close> paired with the coordinates \<^verbatim>\<open>faceUVs[k]\<close>. A face
  of three corners is built as a triangle, one of four as a quad, any other is skipped;
  then the loop \<^verbatim>\<open>for (let k = 0; k < face.length - 1; k++)\<close> builds the line from
  each corner to the next one.
\<close>

definition buildFace :: "bot_env \<Rightarrow> image \<Rightarrow> (vec3 \<times> uv) list \<Rightarrow> builder \<Rightarrow> builder" where
  "buildFace bt texture corners bs =
     (let bs1 = (case corners of
                   [(a, ua), (b, ub), (c, uc)] \<Rightarrow>
                     buildTriangle bt a b c texture (ua, ub, uc) bs
                 | [(a, ua), (b, ub), (c, uc), (d, ud)] \<Rightarrow>
                     buildQuad bt a b c d texture (ua, ub, uc, ud) bs
                 | _ \<Rightarrow> bs)
      in foldl (\<lambda>bs' edge. case edge of ((p, up), (q, uq)) \<Rightarrow> buildLine bt p q texture (up, uq) bs')
           bs1 (zip corners (tl corners)))"

subsection \<open>The mesh parser\<close>

text \<open>
  \<open>item xs i\<close> is the array read \<^verbatim>\<open>xs[i]\<close>, \<^verbatim>\<open>undefined\<close> beyond the end.
  \<open>split_ws\<close> is \<^verbatim>\<open>split(/\s+/)\<close>. \<open>parseInt\<close> is \<^verbatim>\<open>parseInt(s, 10)\<close>:
  an optional sign and the longest prefix of decimal digits, \<open>None\<close> (not a number) when
  there is no digit. \<^verbatim>\<open>parseFloat\<close> is a parameter of the parser, applied to an
  array read; not-a-number coordinates are outside the model.
\<close>

definition item :: "'a list \<Rightarrow> nat \<Rightarrow> 'a option" where
  "item xs i = (if i < length xs then Some (xs ! i) else None)"

function split_ws :: "string \<Rightarrow> string list" where
  "split_ws [] = [[]]"
| "split_ws (c # cs) =
     (if is_space c then [] # split_ws (dropWhile is_space cs)
      else (case split_ws cs of
              [] \<Rightarrow> [[c]]
            | w # ws \<Rightarrow> (c # w) # ws))"
  by pat_completeness auto
termination
  by (relation "measure length") (auto simp: length_dropWhile_le less_Suc_eq_le)

definition is_digit :: "char \<Rightarrow> bool" where
  "is_digit c \<longleftrightarrow> 48 \<le> (of_char c :: nat) \<and> (of_char c :: nat) \<le> 57"

definition digits_value :: "string \<Rightarrow> nat" where
  "digits_value ds = foldl (\<lambda>n c. 10 * n + ((of_char c :: nat) - 48)) 0 ds"

definition parseInt :: "string \<Rightarrow> int option" where
  "parseInt s =
     (let s1 = dropWhile is_space s;
          neg = (case s1 of c # _ \<Rightarrow> c = CHR ''-'' | [] \<Rightarrow> False);
          s2 = (case s1 of c # cs \<Rightarrow> if c = CHR ''-'' \<or> c = CHR ''+'' then cs else s1 | [] \<Rightarrow> []);
          ds = takeWhile is_digit s2
      in if ds = [] then None
         else Some (if neg then - int (digits_value ds) else int (digits_value ds)))"

record mesh =
  mesh_size :: nat
  vertices :: "vec3 list"
  faces :: "int option list list"
  uvs :: "int option list list"
  vts :: "uv list"

text \<open>
  One vertex reference of an \<^verbatim>\<open>f\<close> row: the vertex index and the UV index pushed for
  it, both less one. A reference without a UV index pushes the index 0.
\<close>

definition parse_face_ref :: "string \<Rightarrow> int option \<times> int option" where
  "parse_face_ref part =
     (case split_on CHR ''/'' part of
        [] \<Rightarrow> (None, Some 0)
      | f0 # others \<Rightarrow>
          (map_option (\<lambda>n. n - 1) (parseInt f0),
           (case others of
              f1 # _ \<Rightarrow> if f1 \<noteq> [] then map_option (\<lambda>n. n - 1) (parseInt f1) else Some 0
            | [] \<Rightarrow> Some 0)))"

definition parse_row :: "(string option \<Rightarrow> real) \<Rightarrow> mesh \<Rightarrow> string \<Rightarrow> mesh" where
  "parse_row parseFloat m row =
     (let parts = split_ws row
      in if item parts 0 = Some ''v'' then
           m\<lparr>vertices := vertices m @
               [(parseFloat (item parts 1), parseFloat (item parts 2), parseFloat (item parts 3))]\<rparr>
         else if item parts 0 = Some ''vt'' then
           m\<lparr>vts := vts m @ [(parseFloat (item parts 1), parseFloat (item parts 2))]\<rparr>
         else if item parts 0 = Some ''f'' then
           (let refs = map parse_face_ref (tl parts)
            in m\<lparr>faces := faces m @ [map fst refs], uvs := uvs m @ [map snd refs]\<rparr>)
         else m)"

definition parseModelData :: "(string option \<Rightarrow> real) \<Rightarrow> string \<Rightarrow> mesh" where
  "parseModelData parseFloat data =
     foldl (parse_row parseFloat)
       \<lparr>mesh_size = 1, vertices = [], faces = [], uvs = [], vts = []\<rparr>
       (filter (\<lambda>row. row \<noteq> []) (map trim (split_on (CHR 0x0A) data)))"

subsection \<open>Building a mesh\<close>

text \<open>
  \<open>vertex_at\<close> is the read \<^verbatim>\<open>model.vertices[vertexIndex]\<close>; where it is
  \<^verbatim>\<open>undefined\<close> the access \<^verbatim>\<open>vertex.x\<close> throws a type error, so \<open>face_points\<close>
  is \<open>None\<close> then. \<open>face_uvs\<close> is the map \<^verbatim>\<open>model.vts[vtIndex] || [0, 0]\<close>.
\<close>

definition vertex_at :: "mesh \<Rightarrow> int option \<Rightarrow> vec3 option" where
  "vertex_at m vertexIndex =
     (case vertexIndex of
        Some i \<Rightarrow> if 0 \<le> i \<and> nat i < length (vertices m) then Some (vertices m ! nat i) else None
      | None \<Rightarrow> None)"

definition face_points :: "mesh \<Rightarrow> vec3 \<Rightarrow> real \<Rightarrow> int option list \<Rightarrow> vec3 list option" where
  "face_points m position scale face =
     those (map (\<lambda>vertexIndex.
                   map_option (\<lambda>vertex. case vertex of (x, y, z) \<Rightarrow>
                                 offset position (x * scale) (y * scale) (z * scale))
                     (vertex_at m vertexIndex))
              face)"

definition uv_at :: "mesh \<Rightarrow> int option \<Rightarrow> uv" where
  "uv_at m vtIndex =
     (case vtIndex of
        Some i \<Rightarrow> if 0 \<le> i \<and> nat i < length (vts m) then vts m ! nat i else (0, 0)
      | None \<Rightarrow> (0, 0))"

definition face_uvs :: "mesh \<Rightarrow> int option list \<Rightarrow> uv list" where
  "face_uvs m uvIndices = map (uv_at m) uvIndices"

fun build_faces ::
  "bot_env \<Rightarrow> mesh \<Rightarrow> image \<Rightarrow> vec3 \<Rightarrow> real \<Rightarrow> (int option list \<times> int option list) list
     \<Rightarrow> builder \<Rightarrow> error option \<times> builder" where
  "build_faces bt m texture position scale [] bs = (None, bs)"
| "build_faces bt m texture position scale ((face, uvIndices) # others) bs =
     (case face_points m position scale face of
        None \<Rightarrow> (Some TypeError, bs)
      | Some points \<Rightarrow>
          build_faces bt m texture position scale others
            (buildFace bt texture (zip points (face_uvs m uvIndices)) bs))"

text \<open>
  \<^verbatim>\<open>buildModel\<close>, from the parsed mesh and the loaded texture on. The parser pushes the
  arrays \<^verbatim>\<open>faces\<close> and \<^verbatim>\<open>uvs\<close> in step, so the faces are taken with their UV indices.
\<close>

definition buildModel ::
  "bot_env \<Rightarrow> mesh \<Rightarrow> image \<Rightarrow> vec3 \<Rightarrow> real \<Rightarrow> string \<Rightarrow> builder \<Rightarrow> error option \<times> builder" where
  "buildModel bt model texture position sz buildType bs =
     (let scale = (1 / real (mesh_size model)) * sz;
          bs1 = bs\<lparr>sent := sent bs @ [Announce ''Preparing model'', Announce ''Building model'']\<rparr>
      in if buildType = ''points'' then
           (None,
            foldl (\<lambda>bs' vertex. case vertex of (x, y, z) \<Rightarrow>
                     bs'\<lparr>sent := sent bs' @
                        [Setblock (floor3 (offset position (x * scale) (y * scale) (z * scale)))
                           ''light_blue_concrete'',
                         WaitForTicks 1]\<rparr>)
              bs1 (vertices model))
         else build_faces bt model texture position scale (zip (faces model) (uvs model)) bs1)"

section \<open>The print state and the build scheduler\<close>

text \<open>
  \<^verbatim>\<open>printData\<close>. The bar is kept as its number of filled segments, out of
  \<^verbatim>\<open>PROGRESS_SEGMENTS = 20\<close>. The task name is \<^verbatim>\<open>'Image build'\<close> or
  \<^verbatim>\<open>'GIF frame n'\<close>; the metadata of a GIF frame are its number and the frame count,
  and \<open>None\<close> stands for metadata without them (the empty object of an image build, or
  \<^verbatim>\<open>undefined\<close>).
\<close>

datatype task_name = ImageBuild | GifFrame nat

record print_data =
  isPrinting :: bool
  progress :: real
  bar :: nat
  currentTask :: "task_name option"
  cancelRequested :: bool
  placedBlocks :: nat
  totalBlocks :: nat
  metadata :: "(nat \<times> nat) option"

definition createBar :: "real \<Rightarrow> nat" where
  "createBar progressSegments = nat (max 0 (min 20 \<lfloor>progressSegments + 1 / 2\<rfloor>))"

definition updateProgressBar :: "real \<Rightarrow> print_data \<Rightarrow> print_data" where
  "updateProgressBar p pd =
     (let clamped = max 0 (min 1 p)
      in pd\<lparr>progress := clamped, bar := createBar (clamped * 20)\<rparr>)"

definition updatePrintProgress :: "nat \<Rightarrow> nat \<Rightarrow> print_data \<Rightarrow> print_data" where
  "updatePrintProgress completed totalCount pd =
     updateProgressBar (if totalCount > 0 then real completed / real totalCount else 0)
       (pd\<lparr>placedBlocks := completed, totalBlocks := totalCount\<rparr>)"

definition startPrintTask :: "task_name \<Rightarrow> nat \<Rightarrow> (nat \<times> nat) option \<Rightarrow> print_data \<Rightarrow> print_data" where
  "startPrintTask name totalCount meta pd =
     updatePrintProgress 0 totalCount
       (pd\<lparr>isPrinting := True, currentTask := Some name, cancelRequested := False,
           metadata := meta\<rparr>)"

definition finishPrintTask :: "bool \<Rightarrow> print_data \<Rightarrow> print_data" where
  "finishPrintTask cancelled pd =
     (let pd1 = (if \<not> cancelled \<and> totalBlocks pd > 0
                 then updatePrintProgress (totalBlocks pd) (totalBlocks pd) pd
                 else updateProgressBar 0 pd)
      in pd1\<lparr>isPrinting := False, currentTask := None, cancelRequested := False,
              metadata := None, placedBlocks := 0, totalBlocks := 0\<rparr>)"

text \<open>
  The module's \<^verbatim>\<open>settings\<close> object, which is also \<^verbatim>\<open>bot.settings\<close>, is state: the
  build reads it again at every loop test and at every voxel, and commands change it.
  A build is suspended at each \<^verbatim>\<open>await\<close>, and commands typed in the meantime run
  then. The commands that touch what a build reads are \<^verbatim>\<open>stop\<close>, \<^verbatim>\<open>chunk\<close>,
  \<^verbatim>\<open>commands\<close>, \<^verbatim>\<open>mode\<close> and \<^verbatim>\<open>color\<close>; \<^verbatim>\<open>settings key value\<close> is one
  of the last four. \<open>SetChunkSize n\<close> is the command with an argument that denotes
  the natural number \<open>n\<close>; \<open>SetMode m\<close> carries the argument as typed; \<open>SetColor\<close>
  and \<open>SetCommands\<close> carry an accepted choice. Starting another build while one
  runs, connecting again and the commands that only read are not modelled.
\<close>

datatype command =
  Stop
| SetChunkSize nat
| SetCommands bool
| SetMode string
| SetColor color_key

text \<open>
  What happens while a build is suspended is given by a list of events, one for each
  \<^verbatim>\<open>await\<close> in turn: nothing, some commands are run in order and the awaited call
  returns, or the awaited call fails. When the list is used up nothing happens any
  more. The state of a build holds the print state, the settings, the task list
  \<^verbatim>\<open>bot.task\<close>, the events to come and what has been sent to the game or logged.
\<close>

datatype event = Quiet | Commands "command list" | Failure

record sched =
  printData :: print_data
  config :: settings
  task :: "string list"
  pending :: "event list"
  trace :: "action list"

text \<open>The handler of the \<^verbatim>\<open>stop\<close> command.\<close>

definition stop_command :: "sched \<Rightarrow> sched" where
  "stop_command s =
     (if \<not> isPrinting (printData s) then s\<lparr>trace := trace s @ [Logged NoActiveBuild]\<rparr>
      else if cancelRequested (printData s) then s\<lparr>trace := trace s @ [Logged AlreadyRequested]\<rparr>
      else s\<lparr>printData := (printData s)\<lparr>cancelRequested := True\<rparr>,
             trace := trace s @ [Logged CancellationRequested]\<rparr>)"

text \<open>
  The handlers of the other commands. \<^verbatim>\<open>parsePositiveInteger\<close> rejects 0, and the
  \<^verbatim>\<open>mode\<close> command stores the upper-case argument when it is \<^verbatim>\<open>RGB\<close> or
  \<^verbatim>\<open>LAB\<close>; a rejected command changes nothing.
\<close>

fun run_command :: "command \<Rightarrow> sched \<Rightarrow> sched" where
  "run_command Stop s = stop_command s"
| "run_command (SetChunkSize n) s =
     (if 0 < n then s\<lparr>config := (config s)\<lparr>chunkSize := n\<rparr>\<rparr> else s)"
| "run_command (SetCommands b) s = s\<lparr>config := (config s)\<lparr>commands := b\<rparr>\<rparr>"
| "run_command (SetMode m) s =
     (let choice = toUpperCase m
      in if choice = ''RGB'' \<or> choice = ''LAB'' then s\<lparr>config := (config s)\<lparr>mode := choice\<rparr>\<rparr>
         else s)"
| "run_command (SetColor c) s = s\<lparr>config := (config s)\<lparr>color := c\<rparr>\<rparr>"

datatype settled = Fulfilled | Rejected

definition await :: "sched \<Rightarrow> settled \<times> sched" where
  "await s =
     (case pending s of
        [] \<Rightarrow> (Fulfilled, s)
      | e # es \<Rightarrow>
          (case e of
             Quiet \<Rightarrow> (Fulfilled, s\<lparr>pending := es\<rparr>)
           | Commands cs \<Rightarrow> (Fulfilled, foldl (\<lambda>s' c. run_command c s') (s\<lparr>pending := es\<rparr>) cs)
           | Failure \<Rightarrow> (Rejected, s\<lparr>pending := es\<rparr>)))"

text \<open>
  The arguments of a build that stay fixed while it runs. \<^verbatim>\<open>buildImage\<close> and
  \<^verbatim>\<open>buildGif\<close> have the same loops; they differ in the last arguments of
  \<^verbatim>\<open>getBlock\<close>, in the task pushed and in the name and metadata of the print task.
  Of the bot a build reads the colour library and the palettes; its settings are the
  settings of the state.
\<close>

record job =
  job_bot :: bot_env
  job_texture :: image
  job_palette :: palette_arg
  job_start :: vec3
  job_size :: "nat \<times> nat"
  job_gif :: bool
  job_frame :: nat

text \<open>
  One voxel: with \<^verbatim>\<open>settings.commands\<close> the chat command is sent without suspending;
  otherwise \<^verbatim>\<open>placeBlock\<close> is awaited for a non-empty block name and
  \<^verbatim>\<open>clearBlock\<close> for an empty one.
\<close>

definition voxel_action :: "settings \<Rightarrow> ivec3 \<Rightarrow> string \<Rightarrow> action" where
  "voxel_action st position blockName =
     (if commands st then Setblock position blockName
      else if blockName \<noteq> [] then PlaceBlock position blockName
      else ClearBlock position)"

definition issue :: "ivec3 \<Rightarrow> string \<Rightarrow> sched \<Rightarrow> settled \<times> sched" where
  "issue position blockName s =
     (let s1 = s\<lparr>trace := trace s @ [voxel_action (config s) position blockName]\<rparr>
      in if commands (config s) then (Fulfilled, s1) else await s1)"

text \<open>
  The block of a cell, under the settings as they are when the cell is reached; the
  type error of an unresolvable palette key propagates.
\<close>

definition cell_block :: "job \<Rightarrow> settings \<Rightarrow> nat \<Rightarrow> int \<Rightarrow> error + string" where
  "cell_block J st k z =
     getBlock (colors (job_bot J)) st (bot_palettes (job_bot J))
       (job_texture J) (real k / real (fst (job_size J))) (real_of_int z / real (snd (job_size J)))
       (job_palette J) (job_gif J) (job_frame J)"

definition cell_position :: "job \<Rightarrow> nat \<Rightarrow> int \<Rightarrow> ivec3" where
  "cell_position J k z = floor3 (offset (job_start J) (real k) 0 (real_of_int z))"

text \<open>
  How a loop is left: it ran to its end, cancellation was seen (\<^verbatim>\<open>cancelled = true\<close>),
  or an error was thrown and propagates: the type error of \<^verbatim>\<open>getBlock\<close> or the
  failure of an awaited call.
\<close>

datatype flow = Completed | Cancelled | Thrown error

text \<open>
  The loop \<^verbatim>\<open>for (let xx = 0; xx < settings.chunkSize && x + xx < size[0]; xx++)\<close>.
  Its test reads the chunk size of the settings as they are at that moment.
\<close>

function row_loop :: "job \<Rightarrow> nat \<Rightarrow> int \<Rightarrow> nat \<Rightarrow> sched \<Rightarrow> flow \<times> sched" where
  "row_loop J x z xx s =
     (if xx < chunkSize (config s) \<and> x + xx < fst (job_size J) then
        if cancelRequested (printData s) then (Cancelled, s)
        else
          (let k = x + xx
           in case cell_block J (config s) k z of
                Inl e \<Rightarrow> (Thrown e, s)
              | Inr blockName \<Rightarrow>
                  (case issue (cell_position J k z) blockName s of
                     (Rejected, s1) \<Rightarrow> (Thrown ActuatorFailure, s1)
                   | (Fulfilled, s1) \<Rightarrow>
                       row_loop J x z (xx + 1)
                         (s1\<lparr>printData :=
                               updatePrintProgress (placedBlocks (printData s1) + 1)
                                 (fst (job_size J) * snd (job_size J)) (printData s1)\<rparr>)))
      else (Completed, s))"
  by pat_completeness auto
termination
  by (relation "measure (\<lambda>(J, x, z, xx, s). fst (job_size J) - (x + xx))") auto

declare row_loop.simps [simp del]

text \<open>
  \<^verbatim>\<open>zDirection\<close> only takes the values 1 and -1. The loop
  \<^verbatim>\<open>while (z >= 0 && z < size[1] && !cancelled)\<close> returns the value of \<open>z\<close> it ends with.
\<close>

datatype direction = Forward | Backward

fun step :: "direction \<Rightarrow> int" where
  "step Forward = 1"
| "step Backward = - 1"

fun negate :: "direction \<Rightarrow> direction" where
  "negate Forward = Backward"
| "negate Backward = Forward"

function sweep :: "job \<Rightarrow> nat \<Rightarrow> int \<Rightarrow> direction \<Rightarrow> sched \<Rightarrow> flow \<times> int \<times> sched" where
  "sweep J x z zDirection s =
     (if 0 \<le> z \<and> z < int (snd (job_size J)) then
        (case row_loop J x z 0 s of
           (Completed, s1) \<Rightarrow>
             (case await (s1\<lparr>trace := trace s1 @ [WaitForTicks 1]\<rparr>) of
                (Rejected, s2) \<Rightarrow> (Thrown ActuatorFailure, z, s2)
              | (Fulfilled, s2) \<Rightarrow> sweep J x (z + step zDirection) zDirection s2)
         | (Cancelled, s1) \<Rightarrow> (Cancelled, z, s1)
         | (Thrown e, s1) \<Rightarrow> (Thrown e, z, s1))
      else (Completed, z, s))"
  by pat_completeness auto
termination
  by (relation "measure (\<lambda>(J, x, z, zDirection, s).
        case zDirection of
          Forward \<Rightarrow> nat (int (snd (job_size J)) - z)
        | Backward \<Rightarrow> nat (z + 1))")
     (auto split: direction.splits)

declare sweep.simps [simp del]

text \<open>
  The loop \<^verbatim>\<open>for (let x = 0; x < size[0] && !cancelled; x += settings.chunkSize)\<close>.
  The increment reads the chunk size of the settings as they are when the sweep has
  ended. With a chunk size of 0 the loop never advances; \<open>None\<close> stands for a loop that
  does not end.
\<close>

partial_function (option) chunk_loop ::
  "job \<Rightarrow> nat \<Rightarrow> int \<Rightarrow> direction \<Rightarrow> sched \<Rightarrow> (flow \<times> sched) option" where
  "chunk_loop J x z zDirection s =
     (if x < fst (job_size J) then
        (case sweep J x z zDirection s of
           (Completed, z1, s1) \<Rightarrow>
             chunk_loop J (x + chunkSize (config s1))
               (z1 + step (negate zDirection)) (negate zDirection) s1
         | (Cancelled, z1, s1) \<Rightarrow> Some (Cancelled, s1)
         | (Thrown e, z1, s1) \<Rightarrow> Some (Thrown e, s1))
      else Some (Completed, s))"

text \<open>
  \<^verbatim>\<open>pushTask\<close> and the function it returns, which removes the last occurrence of the
  task name.
\<close>

definition pushTask :: "string \<Rightarrow> sched \<Rightarrow> sched" where
  "pushTask taskName s = s\<lparr>task := task s @ [taskName]\<rparr>"

definition remove_last :: "string \<Rightarrow> string list \<Rightarrow> string list" where
  "remove_last name ts = rev (remove1 name (rev ts))"

text \<open>
  The body of a build from \<^verbatim>\<open>startPrintTask\<close> to the end of the \<^verbatim>\<open>try\<close> block
  (\<open>scan\<close>), and the whole build with its \<^verbatim>\<open>finally\<close> block (\<open>build\<close>). A build
  returns \<^verbatim>\<open>{ cancelled }\<close> or throws the error that ended its loops.
\<close>

datatype outcome = Returned bool | Threw error

definition scan :: "job \<Rightarrow> task_name \<Rightarrow> (nat \<times> nat) option \<Rightarrow> sched \<Rightarrow> (flow \<times> sched) option" where
  "scan J name meta s =
     chunk_loop J 0 0 Forward
       (s\<lparr>printData :=
            startPrintTask name (fst (job_size J) * snd (job_size J)) meta (printData s)\<rparr>)"

definition build ::
  "job \<Rightarrow> string \<Rightarrow> task_name \<Rightarrow> (nat \<times> nat) option \<Rightarrow> sched \<Rightarrow> (outcome \<times> sched) option" where
  "build J taskName name meta s =
     (case scan J name meta (pushTask taskName s) of
        None \<Rightarrow> None
      | Some (f, s1) \<Rightarrow>
          (let cancelled = (f = Cancelled);
               s2 = s1\<lparr>printData := finishPrintTask cancelled (printData s1),
                       task := remove_last taskName (task s1)\<rparr>
           in Some (case f of Thrown e \<Rightarrow> Threw e | _ \<Rightarrow> Returned cancelled, s2)))"

text \<open>
  The options of a build: \<^verbatim>\<open>applyDefaultOffset\<close> may be absent, as may the frame
  number and the frame count of \<^verbatim>\<open>buildGif\<close>. \<open>or_else\<close> is \<^verbatim>\<open>a || b\<close> on numbers.
\<close>

record build_options =
  applyDefaultOffset :: "bool option"
  opt_frame :: "nat option"
  opt_frameCount :: "nat option"

definition or_else :: "nat option \<Rightarrow> nat \<Rightarrow> nat" where
  "or_else a b = (case a of Some n \<Rightarrow> if n \<noteq> 0 then n else b | None \<Rightarrow> b)"

definition target_start :: "vec3 \<Rightarrow> build_options \<Rightarrow> vec3" where
  "target_start startPosition opts =
     (if applyDefaultOffset opts \<noteq> Some False then offset startPosition 1 0 1 else startPosition)"

text \<open>
  \<^verbatim>\<open>buildImage\<close> and \<^verbatim>\<open>buildGif\<close>. The first argument is the connected bot, if
  any: \<^verbatim>\<open>ensureBotSpawned\<close> throws when there is none.
\<close>

definition buildImage ::
  "bot_env option \<Rightarrow> image \<Rightarrow> palette_arg \<Rightarrow> vec3 \<Rightarrow> nat \<times> nat \<Rightarrow> build_options \<Rightarrow> sched
     \<Rightarrow> (outcome \<times> sched) option" where
  "buildImage bt texture palette startPosition sz opts s =
     (case bt of
        None \<Rightarrow> Some (Threw NotConnected, s)
      | Some botInstance \<Rightarrow>
          build \<lparr>job_bot = botInstance, job_texture = texture, job_palette = palette,
                 job_start = target_start startPosition opts, job_size = sz,
                 job_gif = False, job_frame = 1\<rparr>
            ''draw'' ImageBuild None s)"

definition buildGif ::
  "bot_env option \<Rightarrow> image \<Rightarrow> palette_arg \<Rightarrow> vec3 \<Rightarrow> nat \<times> nat \<Rightarrow> nat \<Rightarrow> build_options \<Rightarrow> sched
     \<Rightarrow> (outcome \<times> sched) option" where
  "buildGif bt texture palette startPosition sz frame opts s =
     (case bt of
        None \<Rightarrow> Some (Threw NotConnected, s)
      | Some botInstance \<Rightarrow>
          build \<lparr>job_bot = botInstance, job_texture = texture, job_palette = palette,
                 job_start = target_start startPosition opts, job_size = sz,
                 job_gif = True, job_frame = frame\<rparr>
            ''gif'' (GifFrame (frame + 1))
            (Some (or_else (opt_frame opts) (frame + 1),
                   or_else (opt_frameCount opts)
                     (or_else (shape_at texture 0) 1)))
            s)"

subsection \<open>Reading a trace\<close>

text \<open>
  The voxel operations of a trace, their number and their positions; the line the
  \<^verbatim>\<open>stop\<close> command logs when it accepts a cancellation, and the part of a trace
  after that line.
\<close>

fun is_voxel :: "action \<Rightarrow> bool" where
  "is_voxel (Setblock p b) = True"
| "is_voxel (PlaceBlock p b) = True"
| "is_voxel (ClearBlock p) = True"
| "is_voxel (WaitForTicks n) = False"
| "is_voxel (Announce m) = False"
| "is_voxel (Logged l) = False"

definition voxels :: "action list \<Rightarrow> nat" where
  "voxels tr = length (filter is_voxel tr)"

fun position_of :: "action \<Rightarrow> ivec3 option" where
  "position_of (Setblock p b) = Some p"
| "position_of (PlaceBlock p b) = Some p"
| "position_of (ClearBlock p) = Some p"
| "position_of (WaitForTicks n) = None"
| "position_of (Announce m) = None"
| "position_of (Logged l) = None"

definition visited :: "action list \<Rightarrow> ivec3 list" where
  "visited tr = List.map_filter position_of tr"

definition stop_line :: action where
  "stop_line = Logged CancellationRequested"

definition after_stop :: "action list \<Rightarrow> action list" where
  "after_stop tr = drop 1 (dropWhile (\<lambda>a. a \<noteq> stop_line) tr)"

definition is_reset :: "print_data \<Rightarrow> bool" where
  "is_reset pd \<longleftrightarrow>
     \<not> isPrinting pd \<and> currentTask pd = None \<and> \<not> cancelRequested pd
     \<and> placedBlocks pd = 0 \<and> totalBlocks pd = 0"

subsection \<open>The state of a running build\<close>



definition resolvable :: "(string \<rightharpoonup> swatch list) \<Rightarrow> palette_arg \<Rightarrow> bool" where
  "resolvable palettes palette \<longleftrightarrow>
     (case palette of
        PaletteKey k \<Rightarrow> \<not> isl (parsePaletteString palettes k)
      | PaletteArray p \<Rightarrow> True)"

text \<open>The block name of a cell whose block is returned.\<close>

definition cell_name :: "job \<Rightarrow> settings \<Rightarrow> nat \<Rightarrow> int \<Rightarrow> string" where
  "cell_name J st k z = projr (cell_block J st k z)"



definition rows_left :: "job \<Rightarrow> int \<Rightarrow> direction \<Rightarrow> nat" where
  "rows_left J z zDirection =
     (if 0 \<le> z \<and> z < int (snd (job_size J)) then
        (case zDirection of
           Forward \<Rightarrow> nat (int (snd (job_size J)) - z)
         | Backward \<Rightarrow> nat (z + 1))
      else 0)"

definition exit_z :: "job \<Rightarrow> int \<Rightarrow> direction \<Rightarrow> int" where
  "exit_z J z zDirection =
     (if 0 \<le> z \<and> z < int (snd (job_size J)) then
        (case zDirection of Forward \<Rightarrow> int (snd (job_size J)) | Backward \<Rightarrow> - 1)
      else z)"


section \<open>Concrete inputs\<close>

text \<open>
  Inputs on which the model is evaluated. The two metrics being parameters, evaluation
  needs an instance of them: the squared Euclidean distance stands in for the RGB metric
  and the sum of absolute differences for the LAB metric. The theorems below that hold
  for every metric are stated for an arbitrary \<open>color_lib\<close>.
\<close>

definition sq_distance :: "channel \<times> channel \<times> channel \<Rightarrow> rgb \<Rightarrow> real" where
  "sq_distance c s =
     (case (c, s) of
        ((Some r1, Some g1, Some b1), (r2, g2, b2)) \<Rightarrow>
          real_of_int ((r1 - r2)\<^sup>2 + (g1 - g2)\<^sup>2 + (b1 - b2)\<^sup>2)
      | _ \<Rightarrow> 0)"

definition abs_distance :: "channel \<times> channel \<times> channel \<Rightarrow> rgb \<Rightarrow> real" where
  "abs_distance c s =
     (case (c, s) of
        ((Some r1, Some g1, Some b1), (r2, g2, b2)) \<Rightarrow>
          real_of_int (\<bar>r1 - r2\<bar> + \<bar>g1 - g2\<bar> + \<bar>b1 - b2\<bar>)
      | _ \<Rightarrow> 0)"

definition sample_lib :: color_lib where
  "sample_lib = \<lparr>rgb_distance = sq_distance, lab_distance = abs_distance\<rparr>"

definition sample_settings :: settings where
  "sample_settings = \<lparr>mode = ''RGB'', color = Average, chunkSize = 2, commands = True\<rparr>"

definition white_concrete :: swatch where
  "white_concrete =
     \<lparr>block = ''white_concrete'', average = (207, 213, 214), dominant = (210, 215, 216)\<rparr>"

definition black_concrete :: swatch where
  "black_concrete =
     \<lparr>block = ''black_concrete'', average = (8, 10, 15), dominant = (9, 11, 16)\<rparr>"

definition white_wool :: swatch where
  "white_wool =
     \<lparr>block = ''white_wool'', average = (207, 213, 214), dominant = (233, 236, 236)\<rparr>"

definition sample_palettes :: "string \<rightharpoonup> swatch list" where
  "sample_palettes =
     [''concrete'' \<mapsto> [white_concrete, black_concrete],
      ''wool'' \<mapsto> [white_wool],
      ''zero-gravity'' \<mapsto> [black_concrete]]"

definition sample_store :: store where
  "sample_store = [[white_concrete, black_concrete], [white_wool, white_concrete]]"

definition sample_refs :: "string \<rightharpoonup> ref" where
  "sample_refs = [''concrete'' \<mapsto> 0, ''wool'' \<mapsto> 1]"

text \<open>
  Two static images of one pixel and three channels (no alpha channel): reading channel
  3 yields \<^verbatim>\<open>undefined\<close>.
\<close>

definition pixel_image :: "int \<Rightarrow> int \<Rightarrow> int \<Rightarrow> image" where
  "pixel_image r g b =
     \<lparr>shape = [1, 1, 3],
      get = (\<lambda>idx. if idx = [0, 0, 0] then Some r
                   else if idx = [0, 0, 1] then Some g
                   else if idx = [0, 0, 2] then Some b
                   else None)\<rparr>"

definition grey_pixel :: image where
  "grey_pixel = pixel_image 10 20 30"

definition red_pixel :: image where
  "red_pixel = pixel_image 255 0 0"

text \<open>A connected bot with the sample library, settings and palettes.\<close>

definition sample_bot :: bot_env where
  "sample_bot =
     \<lparr>colors = sample_lib, bot_settings = sample_settings, bot_palettes = sample_palettes\<rparr>"

definition idle_builder :: builder where
  "idle_builder = \<lparr>blocksPlaced = 0, sent = []\<rparr>"

text \<open>A texture of one fully transparent pixel with four channels.\<close>

definition clear_pixel :: image where
  "clear_pixel =
     \<lparr>shape = [1, 1, 4],
      get = (\<lambda>idx. if idx = [0, 0, 0] then Some 10
                   else if idx = [0, 0, 1] then Some 20
                   else if idx = [0, 0, 2] then Some 30
                   else if idx = [0, 0, 3] then Some 0
                   else None)\<rparr>"

text \<open>
  A mesh text with one UV coordinate and a triangle whose vertex references carry no UV
  index, and an instance of \<^verbatim>\<open>parseFloat\<close> for the numbers in it.
\<close>

definition sample_parseFloat :: "string option \<Rightarrow> real" where
  "sample_parseFloat s =
     (if s = Some ''0.5'' then 1 / 2 else if s = Some ''1'' then 1 else 0)"

definition triangle_text :: string where
  "triangle_text =
     ''vt 0.5 0.5'' @ [CHR 0x0A] @
     ''v 0 0 0'' @ [CHR 0x0A] @
     ''v 1 0 0'' @ [CHR 0x0A] @
     ''v 0 1 0'' @ [CHR 0x0A] @
     ''f 1 2 3''"

text \<open>A small quad in the plane \<open>y = 0\<close>, with corners \<open>A\<close>, \<open>B\<close>, \<open>C\<close>, \<open>D\<close> in order.\<close>

definition quad_mesh :: mesh where
  "quad_mesh =
     \<lparr>mesh_size = 1,
      vertices = [(0, 0, 0), (1 / 2, 0, 0), (1 / 2, 0, 1 / 2), (- 1 / 2, 0, 1 / 2)],
      faces = [[Some 0, Some 1, Some 2, Some 3]],
      uvs = [[Some 0, Some 0, Some 0, Some 0]],
      vts = []\<rparr>"

text \<open>
  An idle print state and a build state with the sample settings and the events to
  come; a build of the one-pixel image on a grid of width 4 and height 3 from the
  origin, without the default offset.
\<close>

definition idle_print :: print_data where
  "idle_print =
     \<lparr>isPrinting = False, progress = 0, bar = 0, currentTask = None, cancelRequested = False,
      placedBlocks = 0, totalBlocks = 0, metadata = None\<rparr>"

definition idle_sched :: "event list \<Rightarrow> sched" where
  "idle_sched es =
     \<lparr>printData = idle_print, config = sample_settings, task = [], pending = es, trace = []\<rparr>"

definition no_offset :: build_options where
  "no_offset = \<lparr>applyDefaultOffset = Some False, opt_frame = None, opt_frameCount = None\<rparr>"

definition sample_job :: job where
  "sample_job =
     \<lparr>job_bot = sample_bot, job_texture = grey_pixel, job_palette = PaletteKey ''concrete'',
      job_start = (0, 0, 0), job_size = (4, 3), job_gif = False, job_frame = 1\<rparr>"

text \<open>The same state with settings under which the bot places blocks itself.\<close>

definition survival_sched :: "event list \<Rightarrow> sched" where
  "survival_sched es = (idle_sched es)\<lparr>config := sample_settings\<lparr>commands := False\<rparr>\<rparr>"

section \<open>Properties of the palette resolver and the colour matcher\<close>

lemma split_on_not_Nil: "split_on sep s \<noteq> []"
  by (induction s) (auto split: list.splits)

lemma split_on_no_sep: "sep \<notin> set b \<Longrightarrow> split_on sep b = [b]"
  by (induction b) (auto split: list.splits)

lemma split_on_append:
  "sep \<notin> set a \<Longrightarrow> split_on sep (a @ sep # rest) = a # split_on sep rest"
  by (induction a) (auto split: list.splits simp: split_on_not_Nil)

lemma split_two:
  assumes "CHR ''+'' \<notin> set a" "CHR ''+'' \<notin> set b"
  shows "split_on CHR ''+'' (a @ ''+'' @ b) = [a, b]"
  using split_on_append[OF assms(1), of b] split_on_no_sep[OF assms(2)] by simp

lemma toUpperCase_rgb: "toUpperCase ''rgb'' = ''RGB''"
  by code_simp

lemma toUpperCase_lab: "toUpperCase ''lab'' = ''LAB''"
  by code_simp

lemma property_of_cases:
  "property_of obj n = Own v \<longleftrightarrow> obj n = Some v"
  "property_of obj n = Undefined \<longleftrightarrow> obj n = None \<and> n \<notin> set object_prototype_names"
  "property_of obj n = Inherited \<longleftrightarrow> obj n = None \<and> n \<in> set object_prototype_names"
  by (auto simp: property_of_def split: option.splits)

text \<open>
  The loop of \<open>parsePaletteString\<close> throws nothing but the type error; it throws it
  exactly when a name of the key reads an inherited property, and otherwise returns the
  swatches of the defined names, in order.
\<close>

lemma loop_error:
  "parsePaletteString_loop palettes acc names = Inl e \<Longrightarrow> e = TypeError"
  by (induction names arbitrary: acc) (auto split: property.splits)

lemma loop_concat:
  assumes "\<forall>n \<in> set names. property_of palettes n \<noteq> Inherited"
  shows "parsePaletteString_loop palettes acc names =
     Inr (acc @ concat (map (\<lambda>n. case palettes n of Some p \<Rightarrow> p | None \<Rightarrow> []) names))"
  using assms
  by (induction names arbitrary: acc)
     (auto simp: property_of_cases split: property.splits option.splits)

lemma loop_inherited:
  assumes "\<exists>n \<in> set names. property_of palettes n = Inherited"
  shows "parsePaletteString_loop palettes acc names = Inl TypeError"
  using assms
  by (induction names arbitrary: acc) (auto split: property.splits)

lemma parsePaletteString_concat:
  assumes "\<forall>n \<in> set (split_on CHR ''+'' k). property_of palettes n \<noteq> Inherited"
  shows "parsePaletteString palettes k =
     Inr (concat (map (\<lambda>n. case palettes n of Some p \<Rightarrow> p | None \<Rightarrow> []) (split_on CHR ''+'' k)))"
  unfolding parsePaletteString_def using loop_concat[OF assms, of "[]"] by simp

lemma parsePaletteString_error:
  "parsePaletteString palettes k = Inl e \<Longrightarrow> e = TypeError"
  unfolding parsePaletteString_def by (rule loop_error)

lemma getBlockFromColor_error:
  "getBlockFromColor lib st palettes smp palette md = Inl e \<Longrightarrow> e = TypeError"
  by (cases palette)
     (auto simp: getBlockFromColor_def dest: parsePaletteString_error
           split: prod.splits sum.splits list.splits if_splits)

lemma resolvable_returns:
  assumes "resolvable palettes palette"
  shows "\<not> isl (getBlockFromColor lib st palettes smp palette md)"
  using assms
  by (cases palette)
     (auto simp: resolvable_def getBlockFromColor_def
           split: prod.splits sum.splits list.splits)

lemma nearer_active:
  "nearer lib st md c best sw =
     (if active_distance lib st md c best < active_distance lib st md c sw then best else sw)"
  by (simp add: nearer_def active_distance_def Let_def)

text \<open>
  Appending one swatch to a scanned sequence: the scan's result stays the last swatch of
  least distance.
\<close>

lemma last_min_snoc:
  fixes d :: "'a \<Rightarrow> real"
  assumes "ys \<noteq> []" and "m = last (filter (\<lambda>s. d s = Min (d ` set ys)) ys)"
  shows "(if d m < d x then m else x)
           = last (filter (\<lambda>s. d s = Min (d ` set (ys @ [x]))) (ys @ [x]))"
proof -
  let ?M = "Min (d ` set ys)"
  have fin: "finite (d ` set ys)" and ne: "d ` set ys \<noteq> {}" using assms(1) by auto
  have "\<exists>s\<in>set ys. ?M = d s"
    using Min_in[OF fin ne] unfolding image_iff .
  then have ex: "filter (\<lambda>s. d s = ?M) ys \<noteq> []"
    unfolding filter_empty_conv by metis
  have "m \<in> set (filter (\<lambda>s. d s = ?M) ys)"
    using assms(2) last_in_set[OF ex] by metis
  then have dm: "d m = ?M" unfolding set_filter by blast
  have "d ` set (ys @ [x]) = insert (d x) (d ` set ys)" by auto
  then have Min_snoc: "Min (d ` set (ys @ [x])) = min (d x) ?M"
    using Min_insert[OF fin ne] by metis
  show ?thesis
  proof (cases "d m < d x")
    case True
    then have M: "Min (d ` set (ys @ [x])) = ?M" using dm Min_snoc by linarith
    have "filter (\<lambda>s. d s = ?M) (ys @ [x]) = filter (\<lambda>s. d s = ?M) ys"
      using True dm by simp
    then show ?thesis using True assms(2) unfolding M by metis
  next
    case False
    then have M: "Min (d ` set (ys @ [x])) = d x" using dm Min_snoc by linarith
    have "last (filter (\<lambda>s. d s = d x) (ys @ [x])) = x"
      by simp
    then show ?thesis using False unfolding M by metis
  qed
qed

lemma foldl_keeps_last_min:
  fixes d :: "'a \<Rightarrow> real"
  shows "foldl (\<lambda>best sw. if d best < d sw then best else sw) first rest
     = last (filter (\<lambda>s. d s = Min (d ` set (first # rest))) (first # rest))"
proof (induction rest rule: rev_induct)
  case Nil
  then show ?case by simp
next
  case (snoc x xs)
  have "first # xs \<noteq> []" by simp
  from last_min_snoc[OF this snoc.IH, of x] show ?case
    by (simp only: foldl_append foldl.simps append_Cons)
qed

lemma scan_last_nearest:
  assumes "alpha \<noteq> Some 0"
  shows "getBlockFromColor lib st palettes (r, g, b, alpha) (PaletteArray (first # rest)) md =
     Inr (block (last (filter
       (\<lambda>s. active_distance lib st md (r, g, b) s
              = Min (active_distance lib st md (r, g, b) ` set (first # rest)))
       (first # rest))))"
proof -
  have "nearer lib st md (r, g, b) =
      (\<lambda>best sw. if active_distance lib st md (r, g, b) best
                       < active_distance lib st md (r, g, b) sw
                  then best else sw)"
    by (intro ext) (rule nearer_active)
  then show ?thesis
    using assms foldl_keeps_last_min[of "active_distance lib st md (r, g, b)" first rest]
    by (simp add: getBlockFromColor_def del: Min_insert set_simps filter.simps)
qed

lemma tie_returns_second:
  assumes "alpha \<noteq> Some 0"
    and "active_distance lib st md (r, g, b) s0 = active_distance lib st md (r, g, b) s1"
  shows "getBlockFromColor lib st palettes (r, g, b, alpha) (PaletteArray [s0, s1]) md
           = Inr (block s1)"
  using assms by (simp add: getBlockFromColor_def nearer_active)

text \<open>
  C1 (amended). One step of the nearest-neighbour scan keeps the running best swatch only
  when the best is strictly nearer to the sample than the next swatch; on an equal
  distance the next swatch replaces it. Hence, for every metric, colour key and sample
  that is not fully transparent, \<open>getBlockFromColor\<close> returns the block of the last
  (highest-indexed) swatch among those at the least distance, and of two swatches at
  equal distance the second one.
\<close>

theorem scan_replaces_unless_strictly_nearer:
  assumes "alpha \<noteq> Some 0"
  shows "nearer lib st md (r, g, b) best sw =
           (if active_distance lib st md (r, g, b) best < active_distance lib st md (r, g, b) sw
            then best else sw)
       \<and> getBlockFromColor lib st palettes (r, g, b, alpha) (PaletteArray (first # rest)) md =
           Inr (block (last (filter
             (\<lambda>s. active_distance lib st md (r, g, b) s
                    = Min (active_distance lib st md (r, g, b) ` set (first # rest)))
             (first # rest))))
       \<and> (active_distance lib st md (r, g, b) s0 = active_distance lib st md (r, g, b) s1
            \<longrightarrow> getBlockFromColor lib st palettes (r, g, b, alpha) (PaletteArray [s0, s1]) md
                  = Inr (block s1))"
proof (intro conjI impI)
  show "nearer lib st md (r, g, b) best sw =
           (if active_distance lib st md (r, g, b) best < active_distance lib st md (r, g, b) sw
            then best else sw)"
    by (rule nearer_active)
  show "getBlockFromColor lib st palettes (r, g, b, alpha) (PaletteArray (first # rest)) md =
           Inr (block (last (filter
             (\<lambda>s. active_distance lib st md (r, g, b) s
                    = Min (active_distance lib st md (r, g, b) ` set (first # rest)))
             (first # rest))))"
    by (rule scan_last_nearest[OF assms])
  show "getBlockFromColor lib st palettes (r, g, b, alpha) (PaletteArray [s0, s1]) md
           = Inr (block s1)"
    if "active_distance lib st md (r, g, b) s0 = active_distance lib st md (r, g, b) s1"
    by (rule tie_returns_second[OF assms that])
qed

theorem scan_replaces_unless_strictly_nearer_witness:
  "Some (255::int) \<noteq> Some 0
   \<and> active_distance sample_lib sample_settings ''rgb'' (Some 200, Some 200, Some 200) white_concrete
       = active_distance sample_lib sample_settings ''rgb'' (Some 200, Some 200, Some 200) white_wool
   \<and> getBlockFromColor sample_lib sample_settings sample_palettes
        (Some 200, Some 200, Some 200, Some 255) (PaletteArray [white_concrete, white_wool]) ''rgb''
       = Inr ''white_wool''"
proof -
  have a: "Some (255::int) \<noteq> Some 0" by simp
  have t: "active_distance sample_lib sample_settings ''rgb'' (Some 200, Some 200, Some 200) white_concrete
       = active_distance sample_lib sample_settings ''rgb'' (Some 200, Some 200, Some 200) white_wool"
    by (simp add: active_distance_def toUpperCase_rgb sample_settings_def sample_lib_def
        sq_distance_def white_concrete_def white_wool_def)
  from scan_replaces_unless_strictly_nearer[OF a, of sample_lib sample_settings "''rgb''"
      "Some 200" "Some 200" "Some 200" _ _ _ _ _ white_concrete white_wool] t
  have "getBlockFromColor sample_lib sample_settings sample_palettes
        (Some 200, Some 200, Some 200, Some 255) (PaletteArray [white_concrete, white_wool]) ''rgb''
       = Inr (block white_wool)" by blast
  then show ?thesis using a t by (simp add: white_wool_def)
qed

text \<open>
  The claim as stated fails: with two swatches of the same colour, hence at the same
  distance from any sample under either metric, the matcher returns the second one.
\<close>

theorem tie_returns_higher_index_counterexample:
  "active_distance sample_lib sample_settings ''rgb'' (Some 200, Some 200, Some 200) white_concrete
     = active_distance sample_lib sample_settings ''rgb'' (Some 200, Some 200, Some 200) white_wool
   \<and> getBlockFromColor sample_lib sample_settings sample_palettes
        (Some 200, Some 200, Some 200, Some 255) (PaletteArray [white_concrete, white_wool]) ''rgb''
       = Inr ''white_wool''
   \<and> active_distance sample_lib sample_settings ''lab'' (Some 200, Some 200, Some 200) white_concrete
     = active_distance sample_lib sample_settings ''lab'' (Some 200, Some 200, Some 200) white_wool
   \<and> getBlockFromColor sample_lib sample_settings sample_palettes
        (Some 200, Some 200, Some 200, Some 255) (PaletteArray [white_concrete, white_wool]) ''lab''
       = Inr ''white_wool''
   \<and> block white_concrete = ''white_concrete''"
  by (simp add: getBlockFromColor_def nearer_def active_distance_def toUpperCase_rgb
      toUpperCase_lab sample_settings_def sample_lib_def sq_distance_def abs_distance_def
      white_concrete_def white_wool_def)

text \<open>
  C2 (amended). Resolving a palette key never fails with the error for unknown palettes,
  neither in \<open>parsePaletteString\<close> nor in \<open>getBlockFromColor\<close>. A name of the key for
  which \<^verbatim>\<open>palettes[name]\<close> is \<^verbatim>\<open>undefined\<close> is skipped: when no name of the key
  reads a property inherited from \<^verbatim>\<open>Object.prototype\<close>, the key resolves to the
  swatches of its defined names, in order, and the material is matched against them.
  The error for unknown palettes is raised by \<open>resolvePaletteArgument\<close>, which the
  \<^verbatim>\<open>draw\<close> and \<^verbatim>\<open>gif\<close> commands apply to the key before they load the image and
  start a build: for a non-blank key with at least one name that reads
  \<^verbatim>\<open>undefined\<close> it fails, listing those names.
\<close>

theorem unknown_names_skipped_and_rejected_by_command:
  "parsePaletteString palettes k \<noteq> Inl (UnknownPalettes ms)
   \<and> getBlockFromColor lib st palettes smp (PaletteKey k) md \<noteq> Inl (UnknownPalettes ms)
   \<and> ((\<forall>n \<in> set (split_on CHR ''+'' k). property_of palettes n \<noteq> Inherited) \<longrightarrow>
        parsePaletteString palettes k =
          Inr (concat (map (\<lambda>n. case palettes n of Some p \<Rightarrow> p | None \<Rightarrow> [])
                 (split_on CHR ''+'' k)))
        \<and> getBlockFromColor lib st palettes smp (PaletteKey k) md =
            getBlockFromColor lib st palettes smp
              (PaletteArray (concat (map (\<lambda>n. case palettes n of Some p \<Rightarrow> p | None \<Rightarrow> [])
                 (split_on CHR ''+'' k)))) md)
   \<and> (trim k \<noteq> [] \<longrightarrow>
        (\<exists>n \<in> set (split_on CHR ''+'' (trim k)). property_of palettes n = Undefined) \<longrightarrow>
        resolvePaletteArgument palettes (Some k) =
          Inl (UnknownPalettes
                 (filter (\<lambda>n. property_of palettes n = Undefined) (split_on CHR ''+'' (trim k)))))"
proof (intro conjI impI)
  show "parsePaletteString palettes k \<noteq> Inl (UnknownPalettes ms)"
    using parsePaletteString_error[of palettes k "UnknownPalettes ms"] by auto
  show "getBlockFromColor lib st palettes smp (PaletteKey k) md \<noteq> Inl (UnknownPalettes ms)"
    using getBlockFromColor_error[of lib st palettes smp "PaletteKey k" md "UnknownPalettes ms"]
    by auto
  show "parsePaletteString palettes k =
          Inr (concat (map (\<lambda>n. case palettes n of Some p \<Rightarrow> p | None \<Rightarrow> [])
                 (split_on CHR ''+'' k)))"
    if "\<forall>n \<in> set (split_on CHR ''+'' k). property_of palettes n \<noteq> Inherited"
    by (rule parsePaletteString_concat[OF that])
  show "getBlockFromColor lib st palettes smp (PaletteKey k) md =
            getBlockFromColor lib st palettes smp
              (PaletteArray (concat (map (\<lambda>n. case palettes n of Some p \<Rightarrow> p | None \<Rightarrow> [])
                 (split_on CHR ''+'' k)))) md"
    if "\<forall>n \<in> set (split_on CHR ''+'' k). property_of palettes n \<noteq> Inherited"
    using parsePaletteString_concat[OF that] by (simp add: getBlockFromColor_def)
  show "resolvePaletteArgument palettes (Some k) =
          Inl (UnknownPalettes
                 (filter (\<lambda>n. property_of palettes n = Undefined) (split_on CHR ''+'' (trim k))))"
    if "trim k \<noteq> []"
      and "\<exists>n \<in> set (split_on CHR ''+'' (trim k)). property_of palettes n = Undefined"
  proof -
    have "k \<noteq> []" using that(1) by (auto simp: trim_def)
    moreover have "filter (\<lambda>n. property_of palettes n = Undefined) (split_on CHR ''+'' (trim k))
                     \<noteq> []"
      using that(2) unfolding filter_empty_conv by blast
    ultimately show ?thesis using that(1)
      by (simp add: resolvePaletteArgument_def Let_def)
  qed
qed

lemma sample_properties:
  "property_of sample_palettes ''concrete'' = Own [white_concrete, black_concrete]"
  "property_of sample_palettes ''doesnotexist'' = Undefined"
  "property_of sample_palettes ''constructor'' = Inherited"
  "property_of sample_palettes ''zero-gravity'' = Own [black_concrete]"
  by (simp_all add: property_of_def sample_palettes_def object_prototype_names_def)

theorem unknown_names_skipped_and_rejected_by_command_witness:
  "split_on CHR ''+'' ''concrete+doesnotexist'' = [''concrete'', ''doesnotexist'']
   \<and> property_of sample_palettes ''concrete'' = Own [white_concrete, black_concrete]
   \<and> parsePaletteString sample_palettes ''concrete+doesnotexist''
       = Inr [white_concrete, black_concrete]
   \<and> getBlockFromColor sample_lib sample_settings sample_palettes
        (Some 0, Some 0, Some 0, Some 255) (PaletteKey ''concrete+doesnotexist'') ''rgb''
       = getBlockFromColor sample_lib sample_settings sample_palettes
           (Some 0, Some 0, Some 0, Some 255) (PaletteArray [white_concrete, black_concrete]) ''rgb''
   \<and> trim ''concrete+doesnotexist'' \<noteq> []
   \<and> property_of sample_palettes ''doesnotexist'' = Undefined
   \<and> resolvePaletteArgument sample_palettes (Some ''concrete+doesnotexist'')
        = Inl (UnknownPalettes [''doesnotexist''])"
proof -
  have t: "trim ''concrete+doesnotexist'' = ''concrete+doesnotexist''"
    by (simp add: trim_def is_space_def)
  have s: "split_on CHR ''+'' ''concrete+doesnotexist'' = [''concrete'', ''doesnotexist'']"
    by simp
  have c: "sample_palettes ''concrete'' = Some [white_concrete, black_concrete]"
    "sample_palettes ''doesnotexist'' = None"
    by (simp_all add: sample_palettes_def)
  have h0: "\<forall>n \<in> set (split_on CHR ''+'' ''concrete+doesnotexist'').
              property_of sample_palettes n \<noteq> Inherited"
    unfolding s by (simp add: sample_properties)
  have h1: "trim ''concrete+doesnotexist'' \<noteq> []" unfolding t by simp
  have h2: "\<exists>n \<in> set (split_on CHR ''+'' (trim ''concrete+doesnotexist'')).
              property_of sample_palettes n = Undefined"
    unfolding t s by (simp add: sample_properties)
  from unknown_names_skipped_and_rejected_by_command[of sample_palettes "''concrete+doesnotexist''"
      _ sample_lib sample_settings "(Some 0, Some 0, Some 0, Some 255)" "''rgb''"] h0 h1 h2
  have "parsePaletteString sample_palettes ''concrete+doesnotexist'' =
          Inr (concat (map (\<lambda>n. case sample_palettes n of Some p \<Rightarrow> p | None \<Rightarrow> [])
            (split_on CHR ''+'' ''concrete+doesnotexist'')))"
    and "getBlockFromColor sample_lib sample_settings sample_palettes
           (Some 0, Some 0, Some 0, Some 255) (PaletteKey ''concrete+doesnotexist'') ''rgb'' =
         getBlockFromColor sample_lib sample_settings sample_palettes
           (Some 0, Some 0, Some 0, Some 255)
           (PaletteArray (concat (map (\<lambda>n. case sample_palettes n of Some p \<Rightarrow> p | None \<Rightarrow> [])
              (split_on CHR ''+'' ''concrete+doesnotexist'')))) ''rgb''"
    and "resolvePaletteArgument sample_palettes (Some ''concrete+doesnotexist'') =
          Inl (UnknownPalettes (filter (\<lambda>n. property_of sample_palettes n = Undefined)
            (split_on CHR ''+'' (trim ''concrete+doesnotexist''))))"
    by blast+
  then show ?thesis using h1 unfolding t s
    by (simp add: c sample_properties)
qed

text \<open>
  The claim as stated fails: for the key \<^verbatim>\<open>concrete+doesnotexist\<close>, whose second
  name is not a defined palette, the matcher computes distances over the swatches of
  \<^verbatim>\<open>concrete\<close> and returns a material.
\<close>

theorem unknown_name_returns_material_counterexample:
  "sample_palettes ''doesnotexist'' = None
   \<and> getBlockFromColor sample_lib sample_settings sample_palettes
        (Some 0, Some 0, Some 0, Some 255) (PaletteKey ''concrete+doesnotexist'') ''rgb''
       = Inr ''black_concrete''"
proof (intro conjI)
  show "sample_palettes ''doesnotexist'' = None"
    by (simp add: sample_palettes_def)
  have "parsePaletteString sample_palettes ''concrete+doesnotexist''
          = Inr [white_concrete, black_concrete]"
    by (simp add: parsePaletteString_def sample_properties)
  then show "getBlockFromColor sample_lib sample_settings sample_palettes
        (Some 0, Some 0, Some 0, Some 255) (PaletteKey ''concrete+doesnotexist'') ''rgb''
       = Inr ''black_concrete''"
    by (simp add: getBlockFromColor_def nearer_def toUpperCase_rgb sample_settings_def
        sample_lib_def sq_distance_def white_concrete_def black_concrete_def)
qed

text \<open>
  A name that \<^verbatim>\<open>Object.prototype\<close> has and the palettes lack is outside the amended
  claim: it reads a function, so it passes both the guard of \<open>parsePaletteString\<close>,
  where the spread then throws a type error, and the check of
  \<open>resolvePaletteArgument\<close>, which accepts the key.
\<close>

lemma inherited_name_throws:
  assumes "\<exists>n \<in> set (split_on CHR ''+'' k). property_of palettes n = Inherited"
  shows "parsePaletteString palettes k = Inl TypeError"
    and "getBlockFromColor lib st palettes smp (PaletteKey k) md = Inl TypeError"
proof -
  show "parsePaletteString palettes k = Inl TypeError"
    unfolding parsePaletteString_def by (rule loop_inherited[OF assms])
  then show "getBlockFromColor lib st palettes smp (PaletteKey k) md = Inl TypeError"
    by (simp add: getBlockFromColor_def split: prod.splits)
qed

lemma inherited_name_accepted:
  assumes "trim k \<noteq> []"
    and "\<forall>n \<in> set (split_on CHR ''+'' (trim k)). property_of palettes n \<noteq> Undefined"
  shows "resolvePaletteArgument palettes (Some k) = Inr (trim k)"
proof -
  have "k \<noteq> []" using assms(1) by (auto simp: trim_def)
  moreover have "filter (\<lambda>n. property_of palettes n = Undefined) (split_on CHR ''+'' (trim k))
                   = []"
    using assms(2) unfolding filter_empty_conv by blast
  ultimately show ?thesis using assms(1)
    by (simp add: resolvePaletteArgument_def Let_def)
qed

lemma constructor_key:
  "parsePaletteString sample_palettes ''concrete+constructor'' = Inl TypeError"
  "getBlockFromColor sample_lib sample_settings sample_palettes
     (Some 0, Some 0, Some 0, Some 255) (PaletteKey ''concrete+constructor'') ''rgb''
     = Inl TypeError"
  "resolvePaletteArgument sample_palettes (Some ''concrete+constructor'')
     = Inr ''concrete+constructor''"
proof -
  have s: "split_on CHR ''+'' ''concrete+constructor'' = [''concrete'', ''constructor'']"
    by simp
  have t: "trim ''concrete+constructor'' = ''concrete+constructor''"
    by (simp add: trim_def is_space_def)
  have i: "\<exists>n \<in> set (split_on CHR ''+'' ''concrete+constructor'').
             property_of sample_palettes n = Inherited"
    unfolding s by (simp add: sample_properties)
  show "parsePaletteString sample_palettes ''concrete+constructor'' = Inl TypeError"
    by (rule inherited_name_throws(1)[OF i])
  show "getBlockFromColor sample_lib sample_settings sample_palettes
     (Some 0, Some 0, Some 0, Some 255) (PaletteKey ''concrete+constructor'') ''rgb''
     = Inl TypeError"
    by (rule inherited_name_throws(2)[OF i])
  have "resolvePaletteArgument sample_palettes (Some ''concrete+constructor'')
          = Inr (trim ''concrete+constructor'')"
    by (rule inherited_name_accepted) (simp_all add: t s sample_properties)
  then show "resolvePaletteArgument sample_palettes (Some ''concrete+constructor'')
     = Inr ''concrete+constructor''"
    by (simp add: t)
qed

text \<open>
  The loop over an explicit store writes to the new array only: it returns as the pure
  loop does, and the store it leaves is the store it was given with the new array
  filled; when it returns, the new array holds what the pure loop returns.
\<close>

lemma store_loop:
  assumes "\<And>n r. n \<in> set names \<Longrightarrow> palettes n = Some r \<Longrightarrow> r < length s"
  shows "\<exists>p. parsePaletteString_store_loop palettes (length s) names (s @ [acc])
               = (case parsePaletteString_loop (contents s palettes) acc names of
                    Inl e \<Rightarrow> Some e | Inr q \<Rightarrow> None, s @ [p])
           \<and> (\<forall>q. parsePaletteString_loop (contents s palettes) acc names = Inr q \<longrightarrow> p = q)"
  using assms
proof (induction names arbitrary: acc)
  case Nil
  then show ?case by simp
next
  case (Cons n names)
  have IH: "\<And>acc. \<exists>p. parsePaletteString_store_loop palettes (length s) names (s @ [acc])
               = (case parsePaletteString_loop (contents s palettes) acc names of
                    Inl e \<Rightarrow> Some e | Inr q \<Rightarrow> None, s @ [p])
           \<and> (\<forall>q. parsePaletteString_loop (contents s palettes) acc names = Inr q \<longrightarrow> p = q)"
    using Cons.prems by (intro Cons.IH) auto
  show ?case
  proof (cases "palettes n")
    case None
    then have c: "contents s palettes n = None" by (simp add: contents_def)
    show ?thesis
    proof (cases "n \<in> set object_prototype_names")
      case True
      then show ?thesis using None c by (simp add: property_of_def)
    next
      case False
      then show ?thesis using None c IH[of acc] by (simp add: property_of_def)
    qed
  next
    case (Some r)
    then have "r < length s" using Cons.prems[of n r] by simp
    then have "push_all (length s) r (s @ [acc]) = s @ [acc @ s ! r]"
      by (simp add: push_all_def nth_append)
    moreover have "contents s palettes n = Some (s ! r)" using Some by (simp add: contents_def)
    ultimately show ?thesis using Some IH[of "acc @ s ! r"] by (simp add: property_of_def)
  qed
qed

text \<open>
  Whatever the key, resolving it only appends one new array to the store: no array that
  existed before is written to.
\<close>

lemma parsePaletteString_store_pure:
  assumes "\<And>n r. palettes n = Some r \<Longrightarrow> r < length s"
  shows "\<exists>p. parsePaletteString_store palettes k s
               = (case parsePaletteString (contents s palettes) k of
                    Inl e \<Rightarrow> Inl e | Inr q \<Rightarrow> Inr (length s), s @ [p])
           \<and> (\<forall>q. parsePaletteString (contents s palettes) k = Inr q \<longrightarrow> p = q)"
proof -
  from store_loop[of "split_on CHR ''+'' k" palettes s "[]"] assms
  obtain p where
    "parsePaletteString_store_loop palettes (length s) (split_on CHR ''+'' k) (s @ [[]])
       = (case parsePaletteString_loop (contents s palettes) [] (split_on CHR ''+'' k) of
            Inl e \<Rightarrow> Some e | Inr q \<Rightarrow> None, s @ [p])"
    and "\<forall>q. parsePaletteString_loop (contents s palettes) [] (split_on CHR ''+'' k) = Inr q
           \<longrightarrow> p = q"
    by blast
  then show ?thesis
    unfolding parsePaletteString_store_def parsePaletteString_def Let_def
    by (intro exI[of _ p]) (auto split: sum.splits)
qed

text \<open>
  C9. Let \<open>a\<close> and \<open>b\<close> name palettes whose arrays are at \<open>ra\<close> and \<open>rb\<close> in the
  store (names do not contain the separator \<^verbatim>\<open>+\<close>, and every palette reference points
  into the store). Resolving the key \<^verbatim>\<open>a+b\<close> returns a new array holding the swatches
  of \<open>a\<close> followed by the swatches of \<open>b\<close>, in their order and with repetitions kept,
  and leaves every array of the store, the two source palettes among them, as it was.
\<close>

theorem combined_key_concatenates:
  assumes "palettes a = Some ra" "palettes b = Some rb"
    and "\<And>n r. palettes n = Some r \<Longrightarrow> r < length s"
    and "CHR ''+'' \<notin> set a" "CHR ''+'' \<notin> set b"
  shows "parsePaletteString_store palettes (a @ ''+'' @ b) s
           = (Inr (length s), s @ [s ! ra @ s ! rb])
       \<and> parsePaletteString (contents s palettes) (a @ ''+'' @ b) = Inr (s ! ra @ s ! rb)"
proof -
  have p: "parsePaletteString (contents s palettes) (a @ ''+'' @ b) = Inr (s ! ra @ s ! rb)"
    unfolding parsePaletteString_def split_two[OF assms(4,5)]
    using assms(1,2) by (simp add: contents_def property_of_def)
  from parsePaletteString_store_pure[where palettes = palettes and s = s and k = "a @ ''+'' @ b"]
    assms(3)
  obtain q where
    "parsePaletteString_store palettes (a @ ''+'' @ b) s
       = (case parsePaletteString (contents s palettes) (a @ ''+'' @ b) of
            Inl e \<Rightarrow> Inl e | Inr q \<Rightarrow> Inr (length s), s @ [q])"
    and "\<forall>q'. parsePaletteString (contents s palettes) (a @ ''+'' @ b) = Inr q' \<longrightarrow> q = q'"
    by blast
  then show ?thesis using p by simp
qed

theorem combined_key_concatenates_witness:
  "parsePaletteString_store sample_refs ''concrete+wool'' sample_store
     = (Inr 2, sample_store @ [[white_concrete, black_concrete, white_wool, white_concrete]])
   \<and> parsePaletteString (contents sample_store sample_refs) ''concrete+wool''
     = Inr [white_concrete, black_concrete, white_wool, white_concrete]"
proof -
  have 1: "sample_refs ''concrete'' = Some 0" "sample_refs ''wool'' = Some 1"
    by (simp_all add: sample_refs_def)
  have 2: "\<And>n r. sample_refs n = Some r \<Longrightarrow> r < length sample_store"
    by (auto simp: sample_refs_def sample_store_def split: if_splits)
  have 3: "CHR ''+'' \<notin> set ''concrete''" "CHR ''+'' \<notin> set ''wool''" by simp_all
  show ?thesis
    using combined_key_concatenates[OF 1 2 3] by (simp add: sample_store_def)
qed

section \<open>Properties of the samplers\<close>

text \<open>
  What the three sampling paths do with an image that has no alpha channel. The static
  path of \<open>getBlock\<close> falls back to the blue channel; the animated path and
  \<open>getTextureColor\<close> fall back to 255.
\<close>

lemma static_alpha_is_blue:
  assumes "shape_at img 0 = Some w" "shape_at img 1 = Some h"
    and "get img [\<lfloor>real w * x\<rfloor>, \<lfloor>real h * z\<rfloor>, 3] = None"
  shows "getBlock_sample img x z False t =
           (get img [\<lfloor>real w * x\<rfloor>, \<lfloor>real h * z\<rfloor>, 0],
            get img [\<lfloor>real w * x\<rfloor>, \<lfloor>real h * z\<rfloor>, 1],
            get img [\<lfloor>real w * x\<rfloor>, \<lfloor>real h * z\<rfloor>, 2],
            get img [\<lfloor>real w * x\<rfloor>, \<lfloor>real h * z\<rfloor>, 2])"
  using assms
  by (simp add: getBlock_sample_def scaled_floor_def image_get_def nullish_or_def Let_def)

lemma gif_alpha_default:
  assumes "shape_at img 1 = Some w" "shape_at img 2 = Some h"
    and "get img [int t, \<lfloor>real w * x\<rfloor>, \<lfloor>real h * z\<rfloor>, 3] = None"
  shows "snd (snd (snd (getBlock_sample img x z True t))) = Some 255"
  using assms
  by (simp add: getBlock_sample_def scaled_floor_def image_get_def nullish_or_def Let_def)

lemma texture_alpha_default:
  assumes "shape_at texture 2 = Some 3"
  shows "snd (snd (snd (getTextureColor texture uv))) = Some 255"
  using assms by (simp add: getTextureColor_def Let_def)

text \<open>
  C6 (the code departs from the claim). For a static image of one pixel \<open>(10, 20, 30)\<close>
  with three channels, sampled at \<open>(0, 0)\<close>, the pixel index is \<open>(0, 0)\<close> as claimed,
  but the alpha component of the sample is 30, the blue channel, not 255. For the
  opaque red pixel \<open>(255, 0, 0)\<close> the alpha component is 0, and \<open>getBlock\<close> resolves the
  pixel to \<^verbatim>\<open>'air'\<close>.
\<close>

theorem static_sampler_alpha_is_blue_channel:
  "shape_at grey_pixel 2 = Some 3
   \<and> getBlock_sample grey_pixel 0 0 False 1 = (Some 10, Some 20, Some 30, Some 30)
   \<and> getBlock_sample red_pixel 0 0 False 1 = (Some 255, Some 0, Some 0, Some 0)
   \<and> getBlock sample_lib sample_settings sample_palettes red_pixel 0 0 (PaletteKey ''concrete'')
        False 1 = Inr ''air''"
  by (simp add: getBlock_def getBlock_sample_def scaled_floor_def image_get_def nullish_or_def
      Let_def shape_at_def grey_pixel_def red_pixel_def pixel_image_def getBlockFromColor_def
      parsePaletteString_def sample_properties)

section \<open>Properties of the mesh rasterizer\<close>

text \<open>
  The default key of the matcher, \<^verbatim>\<open>'zero-gravity'\<close>, is a single name that
  \<^verbatim>\<open>Object.prototype\<close> does not have: whatever the palettes are, resolving it does
  not throw, and \<open>getBlockFromUV\<close> is what the matcher returns.
\<close>

lemma default_key_resolvable: "resolvable palettes (PaletteKey ''zero-gravity'')"
  by (simp add: resolvable_def parsePaletteString_def property_of_def object_prototype_names_def
      split: option.splits)

lemma default_key_returns:
  "getBlockFromColor lib st palettes (getTextureColor texture uv) (PaletteKey ''zero-gravity'')
     ''rgb'' = Inr (getBlockFromUV lib st palettes texture uv)"
  using resolvable_returns[OF default_key_resolvable,
      where palettes = palettes and lib = lib and st = st
        and smp = "getTextureColor texture uv" and md = "''rgb''"]
  by (cases "getBlockFromColor lib st palettes (getTextureColor texture uv)
               (PaletteKey ''zero-gravity'') ''rgb''")
     (simp_all add: getBlockFromUV_def)

lemma less_ceiling_nat: "real i < d \<longleftrightarrow> i < nat \<lceil>d\<rceil>"
proof
  assume "real i < d"
  then have "int i < \<lceil>d\<rceil>" by linarith
  then show "i < nat \<lceil>d\<rceil>" by linarith
next
  assume "i < nat \<lceil>d\<rceil>"
  then have "int i < \<lceil>d\<rceil>" by linarith
  then show "real i < d" using less_ceiling_iff[of "int i" d] by simp
qed

text \<open>The loop of a line runs its body once for each natural number below the distance.\<close>

lemma buildLine_loop_foldl:
  "buildLine_loop bt pointA pointB texture uvA uvB distance i bs =
     foldl (\<lambda>bs' j. setBlock bt (floor3 (lerp3D pointA pointB (real j / distance)))
                       (getBlockFromUV (colors bt) (bot_settings bt) (bot_palettes bt) texture
                          (lerp2D uvA uvB (real j / distance))) bs')
       bs [i..<nat \<lceil>distance\<rceil>]"
proof (induction bt pointA pointB texture uvA uvB distance i bs rule: buildLine_loop.induct)
  case (1 bt pointA pointB texture uvA uvB distance i bs)
  show ?case
  proof (cases "real i < distance")
    case True
    then have "i < nat \<lceil>distance\<rceil>" by (simp add: less_ceiling_nat)
    then have u: "[i..<nat \<lceil>distance\<rceil>] = i # [i + 1..<nat \<lceil>distance\<rceil>]"
      by (simp add: upt_conv_Cons)
    show ?thesis
      apply (subst buildLine_loop.simps)
      apply (subst u)
      using True 1 by (simp add: Let_def)
  next
    case False
    then have "\<not> i < nat \<lceil>distance\<rceil>" by (simp add: less_ceiling_nat)
    then show ?thesis using False by (subst buildLine_loop.simps) simp
  qed
qed

lemma buildTriangle_loop_foldl:
  "buildTriangle_loop bt pointA pointB pointC texture uvA uvB uvC distance i bs =
     foldl (\<lambda>bs' j. buildLine bt (lerp3D pointA pointB (real j / distance)) pointC texture
                       (lerp2D uvA uvB (real j / distance), uvC) bs')
       bs [i..<nat \<lceil>distance\<rceil>]"
proof (induction bt pointA pointB pointC texture uvA uvB uvC distance i bs
    rule: buildTriangle_loop.induct)
  case (1 bt pointA pointB pointC texture uvA uvB uvC distance i bs)
  show ?case
  proof (cases "real i < distance")
    case True
    then have "i < nat \<lceil>distance\<rceil>" by (simp add: less_ceiling_nat)
    then have u: "[i..<nat \<lceil>distance\<rceil>] = i # [i + 1..<nat \<lceil>distance\<rceil>]"
      by (simp add: upt_conv_Cons)
    show ?thesis
      apply (subst buildTriangle_loop.simps)
      apply (subst u)
      using True 1 by (simp add: Let_def)
  next
    case False
    then have "\<not> i < nat \<lceil>distance\<rceil>" by (simp add: less_ceiling_nat)
    then show ?thesis using False by (subst buildTriangle_loop.simps) simp
  qed
qed

lemma distance_self: "distanceBetweenPoints a a = 0"
  by (cases a) (simp add: distanceBetweenPoints_def)

lemma lerp_0: "lerp a b 0 = a"
  by (simp add: lerp_def)

text \<open>A line no longer than 1 is one step at its first point; so is a degenerate line.\<close>

lemma short_line:
  assumes "distanceBetweenPoints a b \<le> 1"
  shows "buildLine bt a b texture (uvA, uvB) bs =
     setBlock bt (floor3 a)
       (getBlockFromUV (colors bt) (bot_settings bt) (bot_palettes bt) texture uvA) bs"
proof -
  have "max 1 (distanceBetweenPoints a b) = 1" using assms by simp
  then show ?thesis
    by (cases a; cases b; cases uvA; cases uvB)
       (simp add: buildLine_def buildLine_loop_foldl lerp3D_def lerp2D_def lerp_0)
qed

lemma degenerate_line:
  "buildLine bt a a texture (uvA, uvB) bs =
     setBlock bt (floor3 a)
       (getBlockFromUV (colors bt) (bot_settings bt) (bot_palettes bt) texture uvA) bs"
  by (rule short_line) (simp add: distance_self)

lemma short_triangle:
  assumes "distanceBetweenPoints a b \<le> 1"
  shows "buildTriangle bt a b c texture (uvA, uvB, uvC) bs
           = buildLine bt a c texture (uvA, uvC) bs"
proof -
  have "max 1 (distanceBetweenPoints a b) = 1" using assms by simp
  then show ?thesis
    by (cases a; cases b; cases uvA; cases uvB)
       (simp add: buildTriangle_def buildTriangle_loop_foldl lerp3D_def lerp2D_def lerp_0)
qed

lemma sample_bot_chunk: "chunkSize (bot_settings sample_bot) = 2"
  by (simp add: sample_bot_def sample_settings_def)

lemma grey_block:
  "getBlockFromUV (colors sample_bot) (bot_settings sample_bot) (bot_palettes sample_bot)
     grey_pixel (0, 0) = ''black_concrete''"
  by (simp add: getBlockFromUV_def getTextureColor_def clamped_index_def shape_at_def image_get_def
      grey_pixel_def pixel_image_def getBlockFromColor_def parsePaletteString_def
      sample_bot_def sample_properties Let_def)
     (simp add: black_concrete_def)

lemma clear_block:
  "getBlockFromUV (colors sample_bot) (bot_settings sample_bot) (bot_palettes sample_bot)
     clear_pixel (0, 0) = ''air''"
  by (simp add: getBlockFromUV_def getTextureColor_def clamped_index_def shape_at_def image_get_def
      clear_pixel_def getBlockFromColor_def parsePaletteString_def
      sample_bot_def sample_properties Let_def)

text \<open>
  C5 (amended). With \<open>steps = max 1 (distanceBetweenPoints a b)\<close>, the line from \<open>a\<close> to
  \<open>b\<close> runs one step for each natural number \<open>i\<close> with \<open>i < steps\<close>, in increasing order:
  it interpolates the position and the UV coordinate at \<open>i / steps\<close>, resolves the block
  from the texture colour at that UV coordinate, floors each axis of the position and
  calls \<open>setBlock\<close>. \<open>setBlock\<close> sends one \<^verbatim>\<open>/setblock\<close> command (and then waits
  for a tick when the counter of placed blocks is a multiple of the chunk size), except
  for the blocks \<^verbatim>\<open>'air'\<close> and \<^verbatim>\<open>'cave_air'\<close>, for which it sends nothing: no clear
  is issued. A degenerate line from \<open>a\<close> to \<open>a\<close> is exactly one such step, at the floor
  of \<open>a\<close> with the first UV coordinate.
\<close>

theorem line_voxelization:
  "buildLine bt a b texture (uvA, uvB) bs =
     foldl (\<lambda>bs' i.
              setBlock bt
                (floor3 (lerp3D a b (real i / max 1 (distanceBetweenPoints a b))))
                (getBlockFromUV (colors bt) (bot_settings bt) (bot_palettes bt) texture
                   (lerp2D uvA uvB (real i / max 1 (distanceBetweenPoints a b))))
                bs')
       bs [0..<nat \<lceil>max 1 (distanceBetweenPoints a b)\<rceil>]
   \<and> (i \<in> set [0..<nat \<lceil>max 1 (distanceBetweenPoints a b)\<rceil>]
        \<longleftrightarrow> real i < max 1 (distanceBetweenPoints a b))
   \<and> setBlock bt p blockType bs =
       (if blockType = ''air'' \<or> blockType = ''cave_air'' then bs
        else \<lparr>blocksPlaced = blocksPlaced bs + 1,
              sent = sent bs @ Setblock p blockType #
                (if chunkSize (bot_settings bt) \<noteq> 0
                    \<and> blocksPlaced bs mod chunkSize (bot_settings bt) = 0
                 then [WaitForTicks 1] else [])\<rparr>)
   \<and> buildLine bt a a texture (uvA, uvB) bs =
       setBlock bt (floor3 a)
         (getBlockFromUV (colors bt) (bot_settings bt) (bot_palettes bt) texture uvA) bs"
proof (intro conjI)
  show "buildLine bt a b texture (uvA, uvB) bs =
     foldl (\<lambda>bs' i.
              setBlock bt
                (floor3 (lerp3D a b (real i / max 1 (distanceBetweenPoints a b))))
                (getBlockFromUV (colors bt) (bot_settings bt) (bot_palettes bt) texture
                   (lerp2D uvA uvB (real i / max 1 (distanceBetweenPoints a b))))
                bs')
       bs [0..<nat \<lceil>max 1 (distanceBetweenPoints a b)\<rceil>]"
    by (simp add: buildLine_def buildLine_loop_foldl Let_def)
  show "i \<in> set [0..<nat \<lceil>max 1 (distanceBetweenPoints a b)\<rceil>]
        \<longleftrightarrow> real i < max 1 (distanceBetweenPoints a b)"
    using less_ceiling_nat[of i "max 1 (distanceBetweenPoints a b)"] by simp
  show "setBlock bt p blockType bs =
       (if blockType = ''air'' \<or> blockType = ''cave_air'' then bs
        else \<lparr>blocksPlaced = blocksPlaced bs + 1,
              sent = sent bs @ Setblock p blockType #
                (if chunkSize (bot_settings bt) \<noteq> 0
                    \<and> blocksPlaced bs mod chunkSize (bot_settings bt) = 0
                 then [WaitForTicks 1] else [])\<rparr>)"
    by (simp add: setBlock_def Let_def)
  show "buildLine bt a a texture (uvA, uvB) bs =
       setBlock bt (floor3 a)
         (getBlockFromUV (colors bt) (bot_settings bt) (bot_palettes bt) texture uvA) bs"
    by (rule degenerate_line)
qed

theorem line_voxelization_witness:
  "buildLine sample_bot (0, 0, 0) (0, 0, 0) grey_pixel ((0, 0), (0, 0)) idle_builder =
     \<lparr>blocksPlaced = 1, sent = [Setblock (0, 0, 0) ''black_concrete'', WaitForTicks 1]\<rparr>"
proof -
  from line_voxelization[of sample_bot "(0, 0, 0)" _ grey_pixel "(0, 0)" "(0, 0)" idle_builder
      _ "(0, 0, 0)" "''black_concrete''"]
  have "buildLine sample_bot (0, 0, 0) (0, 0, 0) grey_pixel ((0, 0), (0, 0)) idle_builder =
       setBlock sample_bot (floor3 (0, 0, 0))
         (getBlockFromUV (colors sample_bot) (bot_settings sample_bot) (bot_palettes sample_bot)
            grey_pixel (0, 0)) idle_builder"
    and "setBlock sample_bot (0, 0, 0) ''black_concrete'' idle_builder =
       (if ''black_concrete'' = ''air'' \<or> ''black_concrete'' = ''cave_air'' then idle_builder
        else \<lparr>blocksPlaced = blocksPlaced idle_builder + 1,
              sent = sent idle_builder @ Setblock (0, 0, 0) ''black_concrete'' #
                (if chunkSize (bot_settings sample_bot) \<noteq> 0
                    \<and> blocksPlaced idle_builder mod chunkSize (bot_settings sample_bot) = 0
                 then [WaitForTicks 1] else [])\<rparr>)"
    by blast+
  then show ?thesis
    by (simp add: grey_block floor3_def sample_bot_chunk idle_builder_def)
qed

text \<open>
  The claim as stated fails: on a texture whose pixel is fully transparent the resolved
  material is \<^verbatim>\<open>'air'\<close>, and the degenerate line at the origin sends nothing, neither
  a clear nor a placement.
\<close>

theorem transparent_line_emits_nothing_counterexample:
  "getBlockFromUV (colors sample_bot) (bot_settings sample_bot) (bot_palettes sample_bot)
     clear_pixel (0, 0) = ''air''
   \<and> sent idle_builder = []
   \<and> buildLine sample_bot (0, 0, 0) (0, 0, 0) clear_pixel ((0, 0), (0, 0)) idle_builder
       = idle_builder"
  by (simp add: degenerate_line clear_block setBlock_def idle_builder_def)

lemma quad_face:
  "buildFace bt texture [(a, ua), (b, ub), (c, uc), (d, ud)] bs =
     buildLine bt c d texture (uc, ud)
       (buildLine bt b c texture (ub, uc)
         (buildLine bt a b texture (ua, ub)
           (buildTriangle bt c d a texture (uc, ud, ua)
             (buildTriangle bt a b c texture (ua, ub, uc) bs))))"
  by (simp add: buildFace_def buildQuad_def)

text \<open>
  C7 (amended). \<open>buildQuad\<close> voxelizes the triangle \<open>(A, B, C)\<close> and then the triangle
  \<open>(C, D, A)\<close>. For a face of four corners the mesh build then voxelizes the three
  consecutive edges \<open>A\<close>--\<open>B\<close>, \<open>B\<close>--\<open>C\<close> and \<open>C\<close>--\<open>D\<close> as lines; the closing edge
  \<open>D\<close>--\<open>A\<close> is not voxelized as a line.
\<close>

theorem quad_builds_three_edges:
  "buildQuad bt a b c d texture (ua, ub, uc, ud) bs =
     buildTriangle bt c d a texture (uc, ud, ua)
       (buildTriangle bt a b c texture (ua, ub, uc) bs)
   \<and> buildFace bt texture [(a, ua), (b, ub), (c, uc), (d, ud)] bs =
       buildLine bt c d texture (uc, ud)
         (buildLine bt b c texture (ub, uc)
           (buildLine bt a b texture (ua, ub)
             (buildQuad bt a b c d texture (ua, ub, uc, ud) bs)))"
  by (simp add: buildFace_def buildQuad_def)

lemma quad_distances:
  "distanceBetweenPoints (0, 0, 0) (1 / 2, 0, 0) \<le> 1"
  "distanceBetweenPoints (0, 0, 0) (1 / 2, 0, 1 / 2) \<le> 1"
  "distanceBetweenPoints (1 / 2, 0, 1 / 2) (- (1 / 2), 0, 1 / 2) \<le> 1"
  "distanceBetweenPoints (1 / 2, 0, 1 / 2) (0, 0, 0) \<le> 1"
  "distanceBetweenPoints (1 / 2, 0, 0) (1 / 2, 0, 1 / 2) \<le> 1"
  "distanceBetweenPoints (- (1 / 2), 0, 1 / 2) (0, 0, 0) \<le> 1"
  by (simp_all add: distanceBetweenPoints_def power2_eq_square)

text \<open>
  The claim as stated fails: for the quad of \<open>quad_mesh\<close>, whose fourth corner \<open>D\<close> lies
  in the block \<open>(-1, 0, 0)\<close>, the build sets the block \<open>(0, 0, 0)\<close> five times and never
  the block \<open>(-1, 0, 0)\<close>, which the line from \<open>D\<close> to \<open>A\<close> would set.
\<close>

theorem quad_closing_edge_missing_counterexample:
  "buildModel sample_bot quad_mesh grey_pixel (0, 0, 0) 1 ''faces'' idle_builder =
     (None, \<lparr>blocksPlaced = 5,
             sent = [Announce ''Preparing model'', Announce ''Building model'',
                     Setblock (0, 0, 0) ''black_concrete'', WaitForTicks 1,
                     Setblock (0, 0, 0) ''black_concrete'',
                     Setblock (0, 0, 0) ''black_concrete'', WaitForTicks 1,
                     Setblock (0, 0, 0) ''black_concrete'',
                     Setblock (0, 0, 0) ''black_concrete'', WaitForTicks 1]\<rparr>)
   \<and> sent (buildLine sample_bot (- (1 / 2), 0, 1 / 2) (0, 0, 0) grey_pixel ((0, 0), (0, 0))
             \<lparr>blocksPlaced = 5, sent = []\<rparr>)
       = [Setblock (- 1, 0, 0) ''black_concrete'']"
  by (simp add: buildModel_def quad_mesh_def face_points_def vertex_at_def offset_def
      face_uvs_def uv_at_def quad_face short_triangle short_line quad_distances
      grey_block setBlock_def sample_bot_chunk idle_builder_def floor3_def)

lemma parse_face_ref_plain:
  assumes "CHR ''/'' \<notin> set v"
  shows "snd (parse_face_ref v) = Some 0"
    and "snd (parse_face_ref (v @ ''/'')) = Some 0"
    and "snd (parse_face_ref (v @ ''//'' @ n)) = Some 0"
proof -
  show "snd (parse_face_ref v) = Some 0"
    using split_on_no_sep[OF assms] by (simp add: parse_face_ref_def)
  show "snd (parse_face_ref (v @ ''/'')) = Some 0"
    using split_on_append[OF assms, of "[]"] by (simp add: parse_face_ref_def)
  show "snd (parse_face_ref (v @ ''//'' @ n)) = Some 0"
    using split_on_append[OF assms, of "CHR ''/'' # n"]
    by (simp add: parse_face_ref_def split: list.splits)
qed

lemma uv_at_first: "uv_at m (Some 0) = (case vts m of [] \<Rightarrow> (0, 0) | t # _ \<Rightarrow> t)"
  by (simp add: uv_at_def split: list.splits)

text \<open>
  C8 (amended). A vertex reference of a face that carries no UV index, written \<open>v\<close>,
  \<open>v/\<close> or \<open>v//n\<close>, is given the UV index 0, and the UV coordinate used for it during
  voxelization is the first UV coordinate of the mesh (its first \<^verbatim>\<open>vt\<close> line), or
  \<open>(0, 0)\<close> when the mesh has no UV coordinate.
\<close>

theorem missing_uv_index_uses_first_uv:
  assumes "CHR ''/'' \<notin> set v"
    and "part = v \<or> part = v @ ''/'' \<or> part = v @ ''//'' @ n"
  shows "snd (parse_face_ref part) = Some 0
       \<and> face_uvs m [snd (parse_face_ref part)]
           = [case vts m of [] \<Rightarrow> (0, 0) | t # _ \<Rightarrow> t]"
proof -
  have "snd (parse_face_ref part) = Some 0"
    using assms(2) parse_face_ref_plain[OF assms(1)] by blast
  then show ?thesis by (simp add: face_uvs_def uv_at_first)
qed

lemma triangle_parsed:
  "parseModelData sample_parseFloat triangle_text =
     \<lparr>mesh_size = 1, vertices = [(0, 0, 0), (1, 0, 0), (0, 1, 0)],
      faces = [[Some 0, Some 1, Some 2]], uvs = [[Some 0, Some 0, Some 0]],
      vts = [(1 / 2, 1 / 2)]\<rparr>"
  by (simp add: parseModelData_def triangle_text_def trim_def is_space_def parse_row_def item_def
      parse_face_ref_def parseInt_def is_digit_def digits_value_def sample_parseFloat_def Let_def)

theorem missing_uv_index_uses_first_uv_witness:
  "CHR ''/'' \<notin> set ''2''
   \<and> parse_face_ref ''2'' = (Some 1, Some 0)
   \<and> face_uvs (parseModelData sample_parseFloat triangle_text) [snd (parse_face_ref ''2'')]
       = [(1 / 2, 1 / 2)]"
proof -
  have h: "CHR ''/'' \<notin> set ''2''" by simp
  have p: "parse_face_ref ''2'' = (Some 1, Some 0)"
    by (simp add: parse_face_ref_def parseInt_def is_space_def is_digit_def digits_value_def)
  have d: "''2'' = ''2'' \<or> ''2'' = ''2'' @ ''/'' \<or> ''2'' = ''2'' @ ''//'' @ []" by simp
  have "face_uvs (parseModelData sample_parseFloat triangle_text) [snd (parse_face_ref ''2'')]
       = [case vts (parseModelData sample_parseFloat triangle_text) of
            [] \<Rightarrow> (0, 0) | t # _ \<Rightarrow> t]"
    by (rule conjunct2[OF missing_uv_index_uses_first_uv[OF h d]])
  then show ?thesis using h p by (simp add: triangle_parsed)
qed

text \<open>
  The claim as stated fails: in \<open>triangle_text\<close> the face \<^verbatim>\<open>f 1 2 3\<close> carries no UV
  index and the mesh has the UV coordinate \<open>(1/2, 1/2)\<close>; the three corners of the face
  are voxelized with that coordinate, not with \<open>(0, 0)\<close>.
\<close>

theorem missing_uv_index_counterexample:
  "faces (parseModelData sample_parseFloat triangle_text) = [[Some 0, Some 1, Some 2]]
   \<and> uvs (parseModelData sample_parseFloat triangle_text) = [[Some 0, Some 0, Some 0]]
   \<and> face_uvs (parseModelData sample_parseFloat triangle_text) [Some 0, Some 0, Some 0]
       = [(1 / 2, 1 / 2), (1 / 2, 1 / 2), (1 / 2, 1 / 2)]"
  by (simp add: triangle_parsed face_uvs_def uv_at_def)

section \<open>Properties of the build scheduler\<close>

lemma updatePrintProgress_fields [simp]:
  "placedBlocks (updatePrintProgress c t pd) = c"
  "totalBlocks (updatePrintProgress c t pd) = t"
  "cancelRequested (updatePrintProgress c t pd) = cancelRequested pd"
  "isPrinting (updatePrintProgress c t pd) = isPrinting pd"
  "currentTask (updatePrintProgress c t pd) = currentTask pd"
  "metadata (updatePrintProgress c t pd) = metadata pd"
  by (simp_all add: updatePrintProgress_def updateProgressBar_def Let_def)

lemma startPrintTask_fields [simp]:
  "placedBlocks (startPrintTask n t m pd) = 0"
  "totalBlocks (startPrintTask n t m pd) = t"
  "cancelRequested (startPrintTask n t m pd) = False"
  "isPrinting (startPrintTask n t m pd) = True"
  by (simp_all add: startPrintTask_def)

lemma voxels_simps [simp]:
  "voxels [] = 0"
  "voxels (a # tr) = (if is_voxel a then Suc (voxels tr) else voxels tr)"
  "voxels (tr @ tr') = voxels tr + voxels tr'"
  by (simp_all add: voxels_def)

lemma is_voxel_action [simp]: "is_voxel (voxel_action st p b)"
  by (simp add: voxel_action_def)

lemma voxel_action_not_stop [simp]:
  "voxel_action st p b \<noteq> stop_line" "stop_line \<noteq> voxel_action st p b"
  by (simp_all add: voxel_action_def stop_line_def)

lemma stop_line_not_voxel [simp]: "\<not> is_voxel stop_line"
  by (simp add: stop_line_def)

lemma after_stop_absent:
  "stop_line \<notin> set tr \<Longrightarrow> after_stop (tr @ xs) = after_stop xs"
  by (simp add: after_stop_def dropWhile_append)

lemma after_stop_absent_Nil: "stop_line \<notin> set tr \<Longrightarrow> after_stop tr = []"
  using after_stop_absent[of tr "[]"] by (simp add: after_stop_def)


lemma after_stop_simps [simp]:
  "after_stop [] = []"
  "after_stop (a # tr) = (if a = stop_line then tr else after_stop tr)"
  by (simp_all add: after_stop_def)




lemma stop_command_placed [simp]:
  "placedBlocks (printData (stop_command s)) = placedBlocks (printData s)"
  by (simp add: stop_command_def)






lemma cell_block_returns:
  assumes "resolvable (bot_palettes (job_bot J)) (job_palette J)"
  shows "cell_block J st k z = Inr (cell_name J st k z)"
  using resolvable_returns[OF assms,
      where lib = "colors (job_bot J)" and st = st and md = "''rgb''"
        and smp = "getBlock_sample (job_texture J) (real k / real (fst (job_size J)))
                     (real_of_int z / real (snd (job_size J))) (job_gif J) (job_frame J)"]
  by (cases "cell_block J st k z") (simp_all add: cell_name_def cell_block_def getBlock_def)


lemma rows_left_0: "rows_left J z d = 0 \<Longrightarrow> \<not> (0 \<le> z \<and> z < int (snd (job_size J)))"
  by (cases d) (auto simp: rows_left_def)

lemma rows_left_step:
  assumes "rows_left J z d = Suc k"
  shows "0 \<le> z \<and> z < int (snd (job_size J))"
    and "rows_left J (z + step d) d = k"
    and "exit_z J (z + step d) d = exit_z J z d"
proof -
  show r: "0 \<le> z \<and> z < int (snd (job_size J))"
    using assms by (cases "0 \<le> z \<and> z < int (snd (job_size J))") (auto simp: rows_left_def)
  show "rows_left J (z + step d) d = k"
    using assms r by (cases d) (auto simp: rows_left_def)
  show "exit_z J (z + step d) d = exit_z J z d"
    using r by (cases d) (auto simp: exit_z_def)
qed






lemma pushTask_fields [simp]:
  "trace (pushTask t s) = trace s" "pending (pushTask t s) = pending s"
  "printData (pushTask t s) = printData s" "config (pushTask t s) = config s"
  by (simp_all add: pushTask_def)



lemma finish_reset: "is_reset (finishPrintTask c pd)"
  by (simp add: is_reset_def finishPrintTask_def Let_def)



lemma build_reset:
  assumes "build J taskName name meta s = Some (r, s')"
  shows "is_reset (printData s')"
  using assms
  by (auto simp: build_def Let_def finish_reset split: option.splits prod.splits)


text \<open>
  Commands keep a positive chunk size positive, so the chunk loop of a build that starts
  with a positive chunk size ends, whatever happens while it is suspended.
\<close>

lemma run_command_positive:
  "0 < chunkSize (config s) \<Longrightarrow> 0 < chunkSize (config (run_command cmd s))"
  by (cases cmd) (simp_all add: stop_command_def Let_def)

lemma commands_positive:
  "0 < chunkSize (config s)
     \<Longrightarrow> 0 < chunkSize (config (foldl (\<lambda>s' cmd. run_command cmd s') s cs))"
  by (induction cs arbitrary: s) (simp_all add: run_command_positive)

lemma await_positive:
  assumes "0 < chunkSize (config s)" and "await s = (r, s')"
  shows "0 < chunkSize (config s')"
proof (cases "pending s")
  case Nil
  then show ?thesis using assms by (simp add: await_def)
next
  case (Cons e es)
  have "0 < chunkSize (config (s\<lparr>pending := es\<rparr>))" using assms(1) by simp
  from commands_positive[OF this] show ?thesis
    using assms Cons by (cases e) (auto simp: await_def)
qed

lemma issue_positive:
  assumes "0 < chunkSize (config s)" and "issue p b s = (r, s')"
  shows "0 < chunkSize (config s')"
proof (cases "commands (config s)")
  case True
  then show ?thesis using assms by (auto simp: issue_def Let_def)
next
  case False
  then have "await (s\<lparr>trace := trace s @ [voxel_action (config s) p b]\<rparr>) = (r, s')"
    using assms(2) by (simp add: issue_def Let_def)
  moreover have "0 < chunkSize (config (s\<lparr>trace := trace s @ [voxel_action (config s) p b]\<rparr>))"
    using assms(1) by simp
  ultimately show ?thesis using await_positive by blast
qed

lemma row_loop_positive:
  assumes "0 < chunkSize (config s)" and "row_loop J x z xx s = (f, s')"
  shows "0 < chunkSize (config s')"
  using assms
proof (induction k \<equiv> "fst (job_size J) - (x + xx)" arbitrary: xx s)
  case 0
  then have "\<not> x + xx < fst (job_size J)" by simp
  then have "row_loop J x z xx s = (Completed, s)"
    by (subst row_loop.simps) simp
  then show ?case using 0 by simp
next
  case (Suc k)
  show ?case
  proof (cases "xx < chunkSize (config s) \<and> x + xx < fst (job_size J)")
    case False
    then have "row_loop J x z xx s = (Completed, s)"
      by (subst row_loop.simps) (simp only: if_False)
    then show ?thesis using Suc.prems by simp
  next
    case inside: True
    show ?thesis
    proof (cases "cancelRequested (printData s)")
      case True
      then have "row_loop J x z xx s = (Cancelled, s)"
        using inside by (subst row_loop.simps) simp
      then show ?thesis using Suc.prems by simp
    next
      case False
      show ?thesis
      proof (cases "cell_block J (config s) (x + xx) z")
        case (Inl e)
        then have "row_loop J x z xx s = (Thrown e, s)"
          using inside False by (subst row_loop.simps) (simp add: Let_def)
        then show ?thesis using Suc.prems by simp
      next
        case (Inr b)
        obtain r s1 where iss: "issue (cell_position J (x + xx) z) b s = (r, s1)"
          by (cases "issue (cell_position J (x + xx) z) b s") auto
        have pos1: "0 < chunkSize (config s1)" by (rule issue_positive[OF Suc.prems(1) iss])
        show ?thesis
        proof (cases r)
          case Rejected
          then have "row_loop J x z xx s = (Thrown ActuatorFailure, s1)"
            using inside False Inr iss by (subst row_loop.simps) (simp add: Let_def)
          then show ?thesis using Suc.prems pos1 by simp
        next
          case Fulfilled
          let ?s2 = "s1\<lparr>printData :=
                  updatePrintProgress (placedBlocks (printData s1) + 1)
                    (fst (job_size J) * snd (job_size J)) (printData s1)\<rparr>"
          have unfold: "row_loop J x z xx s = row_loop J x z (xx + 1) ?s2"
            using inside False Inr iss Fulfilled by (subst row_loop.simps) (simp add: Let_def)
          have k: "k = fst (job_size J) - (x + (xx + 1))" using Suc.hyps(2) by simp
          have "0 < chunkSize (config ?s2)" using pos1 by simp
          from Suc.hyps(1)[OF k this] show ?thesis using Suc.prems(2) unfold by simp
        qed
      qed
    qed
  qed
qed

lemma sweep_positive:
  assumes "0 < chunkSize (config s)" and "sweep J x z d s = (f, z', s')"
  shows "0 < chunkSize (config s')"
  using assms
proof (induction k \<equiv> "rows_left J z d" arbitrary: z s)
  case 0
  then have out: "\<not> (0 \<le> z \<and> z < int (snd (job_size J)))" using rows_left_0[of J z d] by simp
  have "sweep J x z d s = (Completed, z, s)"
    by (subst sweep.simps) (simp only: out if_False)
  then show ?case using 0 by simp
next
  case (Suc k)
  note rl = rows_left_step[OF Suc.hyps(2)[symmetric]]
  obtain fr s1 where row: "row_loop J x z 0 s = (fr, s1)"
    by (cases "row_loop J x z 0 s") auto
  have pos1: "0 < chunkSize (config s1)" by (rule row_loop_positive[OF Suc.prems(1) row])
  show ?case
  proof (cases fr)
    case Cancelled
    then have "sweep J x z d s = (Cancelled, z, s1)"
      using rl(1) row by (subst sweep.simps) simp
    then show ?thesis using Suc.prems(2) pos1 by simp
  next
    case (Thrown e)
    then have "sweep J x z d s = (Thrown e, z, s1)"
      using rl(1) row by (subst sweep.simps) simp
    then show ?thesis using Suc.prems(2) pos1 by simp
  next
    case Completed
    obtain r s2 where aw: "await (s1\<lparr>trace := trace s1 @ [WaitForTicks 1]\<rparr>) = (r, s2)"
      by (cases "await (s1\<lparr>trace := trace s1 @ [WaitForTicks 1]\<rparr>)") auto
    have "0 < chunkSize (config (s1\<lparr>trace := trace s1 @ [WaitForTicks 1]\<rparr>))"
      using pos1 by simp
    from await_positive[OF this aw] have pos2: "0 < chunkSize (config s2)" .
    show ?thesis
    proof (cases r)
      case Rejected
      then have "sweep J x z d s = (Thrown ActuatorFailure, z, s2)"
        using rl(1) row Completed aw by (subst sweep.simps) simp
      then show ?thesis using Suc.prems(2) pos2 by simp
    next
      case Fulfilled
      then have "sweep J x z d s = sweep J x (z + step d) d s2"
        using rl(1) row Completed aw by (subst sweep.simps) simp
      with Suc.hyps(1)[OF rl(2)[symmetric] pos2] Suc.prems(2) show ?thesis by simp
    qed
  qed
qed

lemma chunk_loop_terminates:
  assumes "0 < chunkSize (config s)"
  shows "chunk_loop J x z d s \<noteq> None"
  using assms
proof (induction "fst (job_size J) - x" arbitrary: x z d s rule: less_induct)
  case less
  show ?case
  proof (cases "x < fst (job_size J)")
    case False
    then show ?thesis by (subst chunk_loop.simps) simp
  next
    case True
    obtain fs z1 s1 where sw: "sweep J x z d s = (fs, z1, s1)"
      by (cases "sweep J x z d s") auto
    have pos1: "0 < chunkSize (config s1)" by (rule sweep_positive[OF less.prems sw])
    then have "fst (job_size J) - (x + chunkSize (config s1)) < fst (job_size J) - x"
      using True by simp
    from less.hyps[OF this pos1]
    show ?thesis using True sw
      by (subst chunk_loop.simps) (cases fs; simp)
  qed
qed

lemma build_terminates:
  assumes "0 < chunkSize (config s)"
  shows "build J taskName name meta s \<noteq> None"
proof -
  have "0 < chunkSize (config (pushTask taskName s
          \<lparr>printData := startPrintTask name (fst (job_size J) * snd (job_size J)) meta
                           (printData (pushTask taskName s))\<rparr>))"
    using assms by simp
  from chunk_loop_terminates[OF this]
  show ?thesis
    by (auto simp: build_def scan_def Let_def split: option.splits prod.splits)
qed

text \<open>
  A build whose palette argument does not resolve throws the type error at its first
  cell, before any voxel operation.
\<close>

lemma cell_block_throws:
  assumes "\<not> resolvable (bot_palettes (job_bot J)) (job_palette J)"
  shows "cell_block J st k z = Inl TypeError"
proof -
  from assms obtain key where key: "job_palette J = PaletteKey key"
    and "isl (parsePaletteString (bot_palettes (job_bot J)) key)"
    by (cases "job_palette J") (auto simp: resolvable_def)
  then obtain e where "parsePaletteString (bot_palettes (job_bot J)) key = Inl e"
    by (cases "parsePaletteString (bot_palettes (job_bot J)) key") auto
  then have "parsePaletteString (bot_palettes (job_bot J)) key = Inl TypeError"
    using parsePaletteString_error by blast
  then show ?thesis
    by (simp add: cell_block_def getBlock_def getBlockFromColor_def key split: prod.splits)
qed

lemma unresolvable_scan:
  assumes "\<not> resolvable (bot_palettes (job_bot J)) (job_palette J)"
    and "0 < fst (job_size J)" "0 < snd (job_size J)" "0 < chunkSize (config s)"
  shows "scan J name meta s =
     Some (Thrown TypeError,
           s\<lparr>printData :=
                startPrintTask name (fst (job_size J) * snd (job_size J)) meta (printData s)\<rparr>)"
  using assms(2,3,4)
  by (simp add: scan_def chunk_loop.simps sweep.simps row_loop.simps Let_def
      cell_block_throws[OF assms(1)])

text \<open>Runs in which nothing happens while the build is suspended.\<close>

lemma await_quiet: "pending s = [] \<Longrightarrow> await s = (Fulfilled, s)"
  by (simp add: await_def)

lemma issue_quiet:
  "pending s = []
     \<Longrightarrow> issue p b s = (Fulfilled, s\<lparr>trace := trace s @ [voxel_action (config s) p b]\<rparr>)"
  by (simp add: issue_def await_def Let_def)

lemma position_of_voxel_action [simp]: "position_of (voxel_action st p b) = Some p"
  by (simp add: voxel_action_def)

lemma visited_simps [simp]:
  "visited [] = []"
  "visited (a # tr) = (case position_of a of None \<Rightarrow> visited tr | Some p \<Rightarrow> p # visited tr)"
  by (cases "position_of a"; simp add: visited_def List.map_filter_simps)+

lemma scan_4x3:
  assumes "job_size J = (4, 3)" "chunkSize (config s) = 2" "pending s = []"
    and "resolvable (bot_palettes (job_bot J)) (job_palette J)"
  shows "\<exists>s'. scan J name meta s = Some (Completed, s')
     \<and> trace s' = trace s @
         [voxel_action (config s) (cell_position J 0 0) (cell_name J (config s) 0 0),
          voxel_action (config s) (cell_position J 1 0) (cell_name J (config s) 1 0),
          WaitForTicks 1,
          voxel_action (config s) (cell_position J 0 1) (cell_name J (config s) 0 1),
          voxel_action (config s) (cell_position J 1 1) (cell_name J (config s) 1 1),
          WaitForTicks 1,
          voxel_action (config s) (cell_position J 0 2) (cell_name J (config s) 0 2),
          voxel_action (config s) (cell_position J 1 2) (cell_name J (config s) 1 2),
          WaitForTicks 1,
          voxel_action (config s) (cell_position J 2 2) (cell_name J (config s) 2 2),
          voxel_action (config s) (cell_position J 3 2) (cell_name J (config s) 3 2),
          WaitForTicks 1,
          voxel_action (config s) (cell_position J 2 1) (cell_name J (config s) 2 1),
          voxel_action (config s) (cell_position J 3 1) (cell_name J (config s) 3 1),
          WaitForTicks 1,
          voxel_action (config s) (cell_position J 2 0) (cell_name J (config s) 2 0),
          voxel_action (config s) (cell_position J 3 0) (cell_name J (config s) 3 0),
          WaitForTicks 1]
     \<and> placedBlocks (printData s') = 12 \<and> totalBlocks (printData s') = 12"
  using assms(1,2,3)
  by (simp add: scan_def chunk_loop.simps sweep.simps row_loop.simps issue_quiet await_quiet Let_def
      cell_block_returns[OF assms(4)] numeral_2_eq_2 numeral_3_eq_3)

text \<open>
  C3 (amended). For a grid of width 4 and height 3 with chunk size 2, a build that is not
  interrupted and whose palette argument resolves processes the cells \<open>(x, z)\<close> in the
  order \<open>(0,0)\<close>, \<open>(1,0)\<close>, \<open>(0,1)\<close>, \<open>(1,1)\<close>, \<open>(0,2)\<close>, \<open>(1,2)\<close>, \<open>(2,2)\<close>,
  \<open>(3,2)\<close>, \<open>(2,1)\<close>, \<open>(3,1)\<close>, \<open>(2,0)\<close>, \<open>(3,0)\<close>: within a chunk each row is
  processed across the columns of the chunk before \<open>z\<close> advances, and the direction of
  \<open>z\<close> reverses from one chunk to the next. The count of placed blocks is 12 when the
  last cell has been processed, out of a total of 12. (A build whose palette argument
  does not resolve throws at its first cell and visits none: lemma \<open>unresolvable_scan\<close>.)
\<close>

theorem serpentine_order_4x3:
  assumes "job_size J = (4, 3)" and "chunkSize (config s) = 2"
    and "pending s = []"
    and "resolvable (bot_palettes (job_bot J)) (job_palette J)"
  shows "\<exists>s'. scan J name meta s = Some (Completed, s')
     \<and> visited (drop (length (trace s)) (trace s')) =
         [cell_position J 0 0, cell_position J 1 0,
          cell_position J 0 1, cell_position J 1 1,
          cell_position J 0 2, cell_position J 1 2,
          cell_position J 2 2, cell_position J 3 2,
          cell_position J 2 1, cell_position J 3 1,
          cell_position J 2 0, cell_position J 3 0]
     \<and> placedBlocks (printData s') = 12 \<and> totalBlocks (printData s') = 12"
proof -
  from scan_4x3[OF assms, of name meta] obtain s' where
    "scan J name meta s = Some (Completed, s')"
    and "trace s' = trace s @
         [voxel_action (config s) (cell_position J 0 0) (cell_name J (config s) 0 0),
          voxel_action (config s) (cell_position J 1 0) (cell_name J (config s) 1 0),
          WaitForTicks 1,
          voxel_action (config s) (cell_position J 0 1) (cell_name J (config s) 0 1),
          voxel_action (config s) (cell_position J 1 1) (cell_name J (config s) 1 1),
          WaitForTicks 1,
          voxel_action (config s) (cell_position J 0 2) (cell_name J (config s) 0 2),
          voxel_action (config s) (cell_position J 1 2) (cell_name J (config s) 1 2),
          WaitForTicks 1,
          voxel_action (config s) (cell_position J 2 2) (cell_name J (config s) 2 2),
          voxel_action (config s) (cell_position J 3 2) (cell_name J (config s) 3 2),
          WaitForTicks 1,
          voxel_action (config s) (cell_position J 2 1) (cell_name J (config s) 2 1),
          voxel_action (config s) (cell_position J 3 1) (cell_name J (config s) 3 1),
          WaitForTicks 1,
          voxel_action (config s) (cell_position J 2 0) (cell_name J (config s) 2 0),
          voxel_action (config s) (cell_position J 3 0) (cell_name J (config s) 3 0),
          WaitForTicks 1]"
    and "placedBlocks (printData s') = 12" "totalBlocks (printData s') = 12"
    by blast
  then show ?thesis by simp
qed

lemma sample_job_fields:
  "job_size sample_job = (4, 3)" "job_start sample_job = (0, 0, 0)"
  "bot_palettes (job_bot sample_job) = sample_palettes"
  "job_palette sample_job = PaletteKey ''concrete''"
  by (simp_all add: sample_job_def sample_bot_def)

lemma sample_resolvable: "resolvable (bot_palettes (job_bot sample_job)) (job_palette sample_job)"
  by (simp add: sample_job_fields resolvable_def parsePaletteString_def sample_properties)

lemma sample_positions: "cell_position sample_job k z = (int k, 0, z)"
  by (simp add: cell_position_def sample_job_fields offset_def floor3_def)

lemma idle_sched_fields [simp]:
  "pending (idle_sched es) = es" "trace (idle_sched es) = []"
  "printData (idle_sched es) = idle_print" "task (idle_sched es) = []"
  "config (idle_sched es) = sample_settings"
  by (simp_all add: idle_sched_def)

lemma survival_sched_fields [simp]:
  "pending (survival_sched es) = es" "trace (survival_sched es) = []"
  "printData (survival_sched es) = idle_print" "task (survival_sched es) = []"
  "config (survival_sched es) = sample_settings\<lparr>commands := False\<rparr>"
  by (simp_all add: survival_sched_def)

lemma sample_chunk [simp]:
  "chunkSize sample_settings = 2" "commands sample_settings"
  by (simp_all add: sample_settings_def)

theorem serpentine_order_4x3_witness:
  "\<exists>s'. scan sample_job ImageBuild None (idle_sched []) = Some (Completed, s')
     \<and> visited (trace s') =
         [(0, 0, 0), (1, 0, 0), (0, 0, 1), (1, 0, 1), (0, 0, 2), (1, 0, 2),
          (2, 0, 2), (3, 0, 2), (2, 0, 1), (3, 0, 1), (2, 0, 0), (3, 0, 0)]
     \<and> placedBlocks (printData s') = 12"
proof -
  have "pending (idle_sched []) = []" "chunkSize (config (idle_sched [])) = 2" by simp_all
  from serpentine_order_4x3[OF sample_job_fields(1) this(2,1) sample_resolvable,
      of ImageBuild None]
  obtain s' where "scan sample_job ImageBuild None (idle_sched []) = Some (Completed, s')"
    and "visited (trace s') =
         [(0, 0, 0), (1, 0, 0), (0, 0, 1), (1, 0, 1), (0, 0, 2), (1, 0, 2),
          (2, 0, 2), (3, 0, 2), (2, 0, 1), (3, 0, 1), (2, 0, 0), (3, 0, 0)]"
    and "placedBlocks (printData s') = 12"
    by (auto simp: sample_positions)
  then show ?thesis by blast
qed

text \<open>
  The claim as stated fails: from the origin without offset the cell \<open>(x, z)\<close> is the
  block \<open>(x, 0, z)\<close>, and the second block the build visits is \<open>(1, 0, 0)\<close>, the cell
  \<open>(1, 0)\<close>, not the cell \<open>(0, 1)\<close>.
\<close>

theorem column_order_counterexample:
  "map_option (\<lambda>r. visited (trace (snd r))) (scan sample_job ImageBuild None (idle_sched []))
     = Some [(0, 0, 0), (1, 0, 0), (0, 0, 1), (1, 0, 1), (0, 0, 2), (1, 0, 2),
             (2, 0, 2), (3, 0, 2), (2, 0, 1), (3, 0, 1), (2, 0, 0), (3, 0, 0)]
   \<and> map_option (\<lambda>r. visited (trace (snd r))) (scan sample_job ImageBuild None (idle_sched []))
     \<noteq> Some [(0, 0, 0), (0, 0, 1), (0, 0, 2), (1, 0, 0), (1, 0, 1), (1, 0, 2),
             (2, 0, 2), (2, 0, 1), (2, 0, 0), (3, 0, 2), (3, 0, 1), (3, 0, 0)]"
proof -
  have "pending (idle_sched []) = []" "chunkSize (config (idle_sched [])) = 2" by simp_all
  from scan_4x3[OF sample_job_fields(1) this(2,1) sample_resolvable, of ImageBuild None]
  obtain s' where "scan sample_job ImageBuild None (idle_sched []) = Some (Completed, s')"
    and "visited (trace s') =
         [(0, 0, 0), (1, 0, 0), (0, 0, 1), (1, 0, 1), (0, 0, 2), (1, 0, 2),
          (2, 0, 2), (3, 0, 2), (2, 0, 1), (3, 0, 1), (2, 0, 0), (3, 0, 0)]"
    by (auto simp: sample_positions)
  then show ?thesis by simp
qed






lemma sample_cell_returns:
  assumes "job_bot J = sample_bot" and "job_palette J = PaletteKey ''concrete''"
  shows "cell_block J st k z = Inr (cell_name J st k z)"
proof -
  have "resolvable (bot_palettes (job_bot J)) (job_palette J)"
    using sample_resolvable assms by (simp add: sample_job_fields sample_bot_def)
  then show ?thesis by (rule cell_block_returns)
qed



text \<open>\<open>buildImage\<close> and \<open>buildGif\<close> of a connected bot are builds.\<close>

lemma buildImage_is_build:
  "buildImage (Some bt) texture palette startPosition sz opts s =
     build \<lparr>job_bot = bt, job_texture = texture, job_palette = palette,
            job_start = target_start startPosition opts, job_size = sz,
            job_gif = False, job_frame = 1\<rparr>
       ''draw'' ImageBuild None s"
  by (simp add: buildImage_def)

lemma buildGif_is_build:
  "buildGif (Some bt) texture palette startPosition sz frame opts s =
     build \<lparr>job_bot = bt, job_texture = texture, job_palette = palette,
            job_start = target_start startPosition opts, job_size = sz,
            job_gif = True, job_frame = frame\<rparr>
       ''gif'' (GifFrame (frame + 1))
       (Some (or_else (opt_frame opts) (frame + 1),
              or_else (opt_frameCount opts) (or_else (shape_at texture 0) 1)))
       s"
  by (simp add: buildGif_def)




text \<open>
  The boundary: on a grid of one cell, a \<^verbatim>\<open>stop\<close> command that is run while the only
  voxel is being placed is accepted, and the build completes with all of its voxels
  placed and returns \<^verbatim>\<open>{ cancelled: false }\<close>.
\<close>

lemma stop_during_last_voxel:
  "\<exists>s1. scan (sample_job\<lparr>job_size := (1, 1)\<rparr>) ImageBuild None
            (pushTask ''draw'' (survival_sched [Commands [Stop]]))
           = Some (Completed, s1)
     \<and> placedBlocks (printData s1) = 1 \<and> cancelRequested (printData s1)
     \<and> map_option fst (build (sample_job\<lparr>job_size := (1, 1)\<rparr>) ''draw'' ImageBuild None
                          (survival_sched [Commands [Stop]]))
         = Some (Returned False)"
  by (simp add: build_def scan_def chunk_loop.simps sweep.simps row_loop.simps issue_def
      await_def stop_command_def Let_def sample_cell_returns sample_job_def)

text \<open>
  C10. Whenever \<open>buildImage\<close> or \<open>buildGif\<close> of a connected bot ends, whether it
  returns \<^verbatim>\<open>{ cancelled: false }\<close>, returns \<^verbatim>\<open>{ cancelled: true }\<close> or throws an
  error, the print state it leaves is reset: not printing, no current task, no
  cancellation requested, and both block counters 0. With a positive chunk size at its
  start every build ends. Without a connected bot the build throws before it touches the
  print state.
\<close>

theorem print_state_reset_on_exit:
  "(buildImage (Some bt) texture palette startPosition sz opts s = Some (r, s')
      \<longrightarrow> is_reset (printData s'))
   \<and> (buildGif (Some bt) texture palette startPosition sz frame opts s = Some (r, s')
      \<longrightarrow> is_reset (printData s'))
   \<and> (0 < chunkSize (config s)
      \<longrightarrow> buildImage (Some bt) texture palette startPosition sz opts s \<noteq> None
        \<and> buildGif (Some bt) texture palette startPosition sz frame opts s \<noteq> None)
   \<and> buildImage None texture palette startPosition sz opts s = Some (Threw NotConnected, s)
   \<and> buildGif None texture palette startPosition sz frame opts s = Some (Threw NotConnected, s)"
proof (intro conjI impI)
  show "is_reset (printData s')"
    if "buildImage (Some bt) texture palette startPosition sz opts s = Some (r, s')"
    using that by (simp add: buildImage_def build_reset)
  show "is_reset (printData s')"
    if "buildGif (Some bt) texture palette startPosition sz frame opts s = Some (r, s')"
    using that by (simp add: buildGif_def build_reset)
  show "buildImage (Some bt) texture palette startPosition sz opts s \<noteq> None"
    if "0 < chunkSize (config s)"
    using that by (simp add: buildImage_def build_terminates)
  show "buildGif (Some bt) texture palette startPosition sz frame opts s \<noteq> None"
    if "0 < chunkSize (config s)"
    using that by (simp add: buildGif_def build_terminates)
  show "buildImage None texture palette startPosition sz opts s = Some (Threw NotConnected, s)"
    by (simp add: buildImage_def)
  show "buildGif None texture palette startPosition sz frame opts s = Some (Threw NotConnected, s)"
    by (simp add: buildGif_def)
qed

lemma sample_builds:
  "\<exists>s'. buildImage (Some sample_bot) grey_pixel (PaletteKey ''concrete'') (0, 0, 0) (4, 3)
           no_offset (idle_sched []) = Some (Returned False, s')"
  "\<exists>s'. buildImage (Some sample_bot) grey_pixel (PaletteKey ''concrete'') (0, 0, 0) (4, 3)
           no_offset (idle_sched [Commands [Stop]]) = Some (Returned True, s')"
  "\<exists>s'. buildImage (Some sample_bot) grey_pixel (PaletteKey ''concrete'') (0, 0, 0) (4, 3)
           no_offset (survival_sched [Quiet, Failure]) = Some (Threw ActuatorFailure, s')"
  "\<exists>s'. buildGif (Some sample_bot) grey_pixel (PaletteKey ''concrete'') (0, 0, 0) (4, 3) 0
           no_offset (idle_sched [Commands [Stop]]) = Some (Returned True, s')"
  "\<exists>s'. buildImage (Some sample_bot) grey_pixel (PaletteKey ''constructor'') (0, 0, 0) (4, 3)
           no_offset (idle_sched []) = Some (Threw TypeError, s')"
proof -
  note cb = sample_cell_returns
  have thrown: "\<And>J st k z. job_bot J = sample_bot \<Longrightarrow> job_palette J = PaletteKey ''constructor''
              \<Longrightarrow> cell_block J st k z = Inl TypeError"
  proof -
    fix J :: job and st k z
    assume "job_bot J = sample_bot" "job_palette J = PaletteKey ''constructor''"
    moreover have "\<exists>n \<in> set (split_on CHR ''+'' ''constructor'').
                     property_of sample_palettes n = Inherited"
      by (simp add: sample_properties)
    ultimately show "cell_block J st k z = Inl TypeError"
      using inherited_name_throws(2)[of "''constructor''" sample_palettes]
      by (simp add: cell_block_def getBlock_def sample_bot_def)
  qed
  show "\<exists>s'. buildImage (Some sample_bot) grey_pixel (PaletteKey ''concrete'') (0, 0, 0) (4, 3)
           no_offset (idle_sched []) = Some (Returned False, s')"
    by (simp add: buildImage_def build_def scan_def chunk_loop.simps sweep.simps
        row_loop.simps issue_def await_def stop_command_def Let_def cb
        numeral_2_eq_2 numeral_3_eq_3)
  show "\<exists>s'. buildImage (Some sample_bot) grey_pixel (PaletteKey ''concrete'') (0, 0, 0) (4, 3)
           no_offset (idle_sched [Commands [Stop]]) = Some (Returned True, s')"
    by (simp add: buildImage_def build_def scan_def chunk_loop.simps sweep.simps
        row_loop.simps issue_def await_def stop_command_def Let_def cb
        numeral_2_eq_2 numeral_3_eq_3)
  show "\<exists>s'. buildImage (Some sample_bot) grey_pixel (PaletteKey ''concrete'') (0, 0, 0) (4, 3)
           no_offset (survival_sched [Quiet, Failure]) = Some (Threw ActuatorFailure, s')"
    by (simp add: buildImage_def build_def scan_def chunk_loop.simps sweep.simps
        row_loop.simps issue_def await_def stop_command_def Let_def cb
        numeral_2_eq_2 numeral_3_eq_3)
  show "\<exists>s'. buildGif (Some sample_bot) grey_pixel (PaletteKey ''concrete'') (0, 0, 0) (4, 3) 0
           no_offset (idle_sched [Commands [Stop]]) = Some (Returned True, s')"
    by (simp add: buildGif_def build_def scan_def chunk_loop.simps sweep.simps
        row_loop.simps issue_def await_def stop_command_def Let_def cb
        numeral_2_eq_2 numeral_3_eq_3)
  show "\<exists>s'. buildImage (Some sample_bot) grey_pixel (PaletteKey ''constructor'') (0, 0, 0) (4, 3)
           no_offset (idle_sched []) = Some (Threw TypeError, s')"
    by (simp add: buildImage_def build_def scan_def chunk_loop.simps sweep.simps
        row_loop.simps Let_def thrown numeral_2_eq_2 numeral_3_eq_3)
qed

theorem print_state_reset_on_exit_witness:
  "0 < chunkSize (config (idle_sched []))
   \<and> (\<exists>s'. buildImage (Some sample_bot) grey_pixel (PaletteKey ''concrete'') (0, 0, 0) (4, 3)
           no_offset (idle_sched []) = Some (Returned False, s') \<and> is_reset (printData s'))
   \<and> (\<exists>s'. buildImage (Some sample_bot) grey_pixel (PaletteKey ''concrete'') (0, 0, 0) (4, 3)
           no_offset (idle_sched [Commands [Stop]]) = Some (Returned True, s')
           \<and> is_reset (printData s'))
   \<and> (\<exists>s'. buildImage (Some sample_bot) grey_pixel (PaletteKey ''concrete'') (0, 0, 0) (4, 3)
           no_offset (survival_sched [Quiet, Failure]) = Some (Threw ActuatorFailure, s')
           \<and> is_reset (printData s'))
   \<and> (\<exists>s'. buildGif (Some sample_bot) grey_pixel (PaletteKey ''concrete'') (0, 0, 0) (4, 3) 0
           no_offset (idle_sched [Commands [Stop]]) = Some (Returned True, s')
           \<and> is_reset (printData s'))
   \<and> (\<exists>s'. buildImage (Some sample_bot) grey_pixel (PaletteKey ''constructor'') (0, 0, 0) (4, 3)
           no_offset (idle_sched []) = Some (Threw TypeError, s')
           \<and> is_reset (printData s'))"
proof -
  have "0 < chunkSize (config (idle_sched []))" by simp
  then show ?thesis using sample_builds print_state_reset_on_exit by blast
qed

end
